theory Spec2Isabelle
  imports Complex_Main
begin

section \<open>MovieLens 100K cleaning pipeline: \<^verbatim>\<open>data_cleaning_complete.py\<close>\<close>

text \<open>
  The script reads three delimited files into tables, cleans each table, joins them and
  pivots the result into a user-by-item matrix.  A table is modelled as the list of its
  rows in table order, a row as a record of its columns, a null (NaN, NaT) as \<open>None\<close>.
  Integer columns are unbounded integers, text is a list of characters with code points
  below 256.  The numbers the script computes in floating point (matrix cells, sparsity)
  are modelled as exact rationals.
\<close>

subsection \<open>Library operations on tables\<close>

text \<open>
  \<^verbatim>\<open>DataFrame.drop_duplicates\<close> keeps, in table order, every row whose key (the columns of
  \<^verbatim>\<open>subset\<close>, or the whole row) has not occurred in an earlier row.  The scan carries the
  keys seen so far.
\<close>

fun duplicated_scan :: "('a \<Rightarrow> 'k) \<Rightarrow> 'k list \<Rightarrow> 'a list \<Rightarrow> 'a list" where
  "duplicated_scan key seen [] = []"
| "duplicated_scan key seen (r # rs) =
     (if key r \<in> set seen then duplicated_scan key seen rs
      else r # duplicated_scan key (key r # seen) rs)"

definition drop_duplicates_subset :: "('a \<Rightarrow> 'k) \<Rightarrow> 'a list \<Rightarrow> 'a list" where
  "drop_duplicates_subset key rs = duplicated_scan key [] rs"

definition drop_duplicates :: "'a list \<Rightarrow> 'a list" where
  "drop_duplicates rs = drop_duplicates_subset (\<lambda>r. r) rs"

subsection \<open>Library operations on text\<close>

text \<open>
  \<^verbatim>\<open>str.strip()\<close> removes leading and trailing whitespace; for code points below 256
  Python's whitespace is 9 to 13, 28 to 32, 133 and 160.  \<^verbatim>\<open>str.lower()\<close> and
  \<^verbatim>\<open>str.upper()\<close> are modelled on the ASCII letters; other characters are left as they are.
\<close>

definition isspace :: "char \<Rightarrow> bool" where
  "isspace c = (of_char c \<in> set [9, 10, 11, 12, 13, 28, 29, 30, 31, 32, 133, 160 :: nat])"

definition str_strip :: "string \<Rightarrow> string" where
  "str_strip s = rev (dropWhile isspace (rev (dropWhile isspace s)))"

definition lower_char :: "char \<Rightarrow> char" where
  "lower_char c = (let n = of_char c :: nat in if 65 \<le> n \<and> n \<le> 90 then char_of (n + 32) else c)"

definition upper_char :: "char \<Rightarrow> char" where
  "upper_char c = (let n = of_char c :: nat in if 97 \<le> n \<and> n \<le> 122 then char_of (n - 32) else c)"

definition str_lower :: "string \<Rightarrow> string" where
  "str_lower s = map lower_char s"

definition str_upper :: "string \<Rightarrow> string" where
  "str_upper s = map upper_char s"

text \<open>\<^verbatim>\<open>sep.join(parts)\<close>.\<close>

fun str_join :: "string \<Rightarrow> string list \<Rightarrow> string" where
  "str_join sep [] = []"
| "str_join sep [x] = x"
| "str_join sep (x # y # ys) = x @ sep @ str_join sep (y # ys)"

subsection \<open>Ratings cleaner\<close>

text \<open>
  A ratings row has the four columns of \<^verbatim>\<open>u.data\<close>.  The timestamp column is either of
  integer type (epoch seconds, as read from the file) or of the instant type, whose
  values are nanoseconds since the epoch; the type belongs to the column, so the table
  carries it.  The bounded range of the library's instant type is not modelled.
\<close>

datatype dtype = Int64 | Datetime64

record rating_row =
  user_id :: int
  item_id :: int
  rating :: int
  timestamp :: int

record ratings_table =
  timestamp_dtype :: dtype
  rows :: "rating_row list"

text \<open>
  \<^verbatim>\<open>pd.to_datetime(column, unit='s')\<close>: an integer column is read as seconds since the
  epoch; a column that already holds instants is returned as it is.
\<close>

definition to_datetime_s :: "dtype \<Rightarrow> int \<Rightarrow> int" where
  "to_datetime_s dt v = (case dt of Int64 \<Rightarrow> v * 1000000000 | Datetime64 \<Rightarrow> v)"

text \<open>
  \<^verbatim>\<open>clean_ratings_data\<close>.  The function returns the table; the two counts it prints
  (duplicates removed, invalid ratings found) are returned with it.
\<close>

record ratings_cleaned =
  cleaned :: ratings_table
  printed_removed :: nat
  printed_invalid :: nat

definition clean_ratings_data :: "ratings_table \<Rightarrow> ratings_cleaned" where
  "clean_ratings_data ratings =
     (let before_ratings = length (rows ratings);
          ratings1 = drop_duplicates (rows ratings);
          removed = before_ratings - length ratings1;
          invalid_ratings = filter (\<lambda>r. rating r < 1 \<or> rating r > 5) ratings1;
          ratings2 = (if length invalid_ratings > 0
                      then filter (\<lambda>r. rating r \<ge> 1 \<and> rating r \<le> 5) ratings1
                      else ratings1);
          ratings3 = map (\<lambda>r. r\<lparr>timestamp := to_datetime_s (timestamp_dtype ratings) (timestamp r)\<rparr>)
                       ratings2
      in \<lparr>cleaned = \<lparr>timestamp_dtype = Datetime64, rows = ratings3\<rparr>,
          printed_removed = removed,
          printed_invalid = length invalid_ratings\<rparr>)"

subsection \<open>Items cleaner\<close>

text \<open>
  An item row has the columns of \<^verbatim>\<open>u.item\<close>; the nineteen genre columns are the function
  \<open>genre_flag\<close> from the column name to its integer value (\<^verbatim>\<open>row[genre]\<close>).  The derived
  columns \<^verbatim>\<open>release_year\<close> and \<^verbatim>\<open>genres\<close> are null in a table that has not been cleaned.
  A date is (year, month, day).
\<close>

type_synonym date = "int \<times> int \<times> int"

record item_row =
  i_item_id :: int
  movie_title :: "string option"
  release_date :: "date option"
  video_release_date :: "string option"
  IMDb_URL :: "string option"
  genre_flag :: "string \<Rightarrow> int"
  release_year :: "int option"
  genres :: "string option"

definition genre_cols :: "string list" where
  "genre_cols = [''unknown'', ''Action'', ''Adventure'', ''Animation'', ''Children's'', ''Comedy'',
                 ''Crime'', ''Documentary'', ''Drama'', ''Fantasy'', ''Film-Noir'', ''Horror'',
                 ''Musical'', ''Mystery'', ''Romance'', ''Sci-Fi'', ''Thriller'', ''War'', ''Western'']"

text \<open>
  \<^verbatim>\<open>str.extract(r'\((\d{4})\)$')\<close>: the pattern has a fixed length and is anchored at the
  end, so it can only match the last six characters, or the six before a final newline.
\<close>

definition isdigit :: "char \<Rightarrow> bool" where
  "isdigit c = (let n = of_char c :: nat in 48 \<le> n \<and> n \<le> 57)"

definition match_year_at_end :: "string \<Rightarrow> string option" where
  "match_year_at_end s =
     (case drop (length s - 6) s of
        [a, d1, d2, d3, d4, b] \<Rightarrow>
          (if a = CHR ''('' \<and> list_all isdigit [d1, d2, d3, d4] \<and> b = CHR '')''
           then Some [d1, d2, d3, d4] else None)
      | _ \<Rightarrow> None)"

definition str_extract_year :: "string \<Rightarrow> string option" where
  "str_extract_year s =
     (case match_year_at_end s of
        Some y \<Rightarrow> Some y
      | None \<Rightarrow> (if s \<noteq> [] \<and> last s = CHR 0x0A then match_year_at_end (butlast s) else None))"

text \<open>\<^verbatim>\<open>pd.to_numeric\<close> on a string of decimal digits.\<close>

definition to_numeric :: "string \<Rightarrow> int" where
  "to_numeric s = foldl (\<lambda>a c. 10 * a + (int (of_char c) - 48)) 0 s"

text \<open>\<^verbatim>\<open>astype(int)\<close> on a value that is an integer already.\<close>

definition astype_int :: "int \<Rightarrow> int" where
  "astype_int v = v"

text \<open>\<^verbatim>\<open>get_genres\<close>: the loop over \<^verbatim>\<open>genre_cols[1:]\<close> appends to the list \<^verbatim>\<open>genres\<close>
  (here \<open>acc\<close>).\<close>

fun genres_loop :: "(string \<Rightarrow> int) \<Rightarrow> string list \<Rightarrow> string list \<Rightarrow> string list" where
  "genres_loop row [] acc = acc"
| "genres_loop row (genre # rest) acc =
     genres_loop row rest (if row genre = 1 then acc @ [genre] else acc)"

definition get_genres :: "'a item_row_scheme \<Rightarrow> string" where
  "get_genres row =
     (let acc = genres_loop (genre_flag row) (tl genre_cols) []
      in if acc \<noteq> [] then str_join '', '' acc else ''Unknown'')"

definition clean_items_data :: "item_row list \<Rightarrow> item_row list" where
  "clean_items_data items =
     (let items1 = drop_duplicates_subset i_item_id items;
          items2 = map (\<lambda>it. it\<lparr>movie_title := map_option str_strip (movie_title it)\<rparr>) items1;
          items3 = map (\<lambda>it. it\<lparr>release_year :=
                      map_option to_numeric (Option.bind (movie_title it) str_extract_year)\<rparr>) items2;
          items4 = map (\<lambda>it. it\<lparr>genre_flag :=
                      (\<lambda>col. if col \<in> set genre_cols then astype_int (genre_flag it col)
                             else genre_flag it col)\<rparr>) items3;
          items5 = map (\<lambda>it. it\<lparr>genres := Some (get_genres it)\<rparr>) items4
      in items5)"

subsection \<open>Users cleaner\<close>

text \<open>\<^verbatim>\<open>categorize_age\<close>, the local function of \<^verbatim>\<open>clean_users_data\<close>.\<close>

definition categorize_age :: "int \<Rightarrow> string" where
  "categorize_age age =
     (if age < 18 then ''Under 18''
      else if age < 25 then ''18-24''
      else if age < 35 then ''25-34''
      else if age < 50 then ''35-49''
      else if age < 65 then ''50-64''
      else ''65+'')"

record user_row =
  u_user_id :: int
  age :: int
  gender :: "string option"
  occupation :: "string option"
  zip_code :: string
  age_group :: "string option"

definition clean_users_data :: "user_row list \<Rightarrow> user_row list" where
  "clean_users_data users =
     (let users1 = drop_duplicates_subset u_user_id users;
          users2 = map (\<lambda>u. u\<lparr>occupation := map_option (\<lambda>s. str_lower (str_strip s)) (occupation u)\<rparr>)
                     users1;
          users3 = map (\<lambda>u. u\<lparr>gender := map_option str_upper (gender u)\<rparr>) users2;
          users4 = map (\<lambda>u. u\<lparr>age_group := Some (categorize_age (user_row.age u))\<rparr>) users3
      in users4)"

subsection \<open>Integrator\<close>

text \<open>
  A row of the integrated table: the four rating columns, the three columns brought in
  from the items table and the four brought in from the users table (the \<open>f_\<close> prefix keeps
  the column names apart from those of the source tables).  A null in a brought-in
  column is \<open>None\<close>, whether it comes from a missing match or from a null in the source.
  The type of the timestamp column is not carried further.
\<close>

record final_row =
  f_user_id :: int
  f_item_id :: int
  f_rating :: int
  f_timestamp :: int
  f_movie_title :: "string option"
  f_release_year :: "int option"
  f_genres :: "string option"
  f_age :: "int option"
  f_gender :: "string option"
  f_occupation :: "string option"
  f_age_group :: "string option"

text \<open>
  \<^verbatim>\<open>DataFrame.merge(right, on=key, how='left')\<close>: every left row, in order, paired with each
  right row of the same key, in the order of the right table, or with nulls when there
  is none.
\<close>

definition merge_left :: "('l \<Rightarrow> 'k) \<Rightarrow> ('r \<Rightarrow> 'k) \<Rightarrow> 'l list \<Rightarrow> 'r list \<Rightarrow> ('l \<times> 'r option) list" where
  "merge_left left_on right_on left right =
     concat (map (\<lambda>l. case filter (\<lambda>r. right_on r = left_on l) right of
                          [] \<Rightarrow> [(l, None)]
                        | m # ms \<Rightarrow> map (\<lambda>r. (l, Some r)) (m # ms)) left)"

text \<open>\<^verbatim>\<open>integrate_data\<close>: two left joins, on \<^verbatim>\<open>item_id\<close> and then on \<^verbatim>\<open>user_id\<close>.\<close>

definition integrate_data :: "ratings_table \<Rightarrow> item_row list \<Rightarrow> user_row list \<Rightarrow> final_row list" where
  "integrate_data ratings items users =
     (let final_data = rows ratings;
          final_data1 = merge_left item_id i_item_id final_data items;
          final_data2 = merge_left (\<lambda>(r, it). user_id r) u_user_id final_data1 users
      in map (\<lambda>((r, it), u).
            \<lparr>f_user_id = user_id r, f_item_id = item_id r, f_rating = rating r,
             f_timestamp = timestamp r,
             f_movie_title = Option.bind it movie_title,
             f_release_year = Option.bind it release_year,
             f_genres = Option.bind it genres,
             f_age = map_option user_row.age u,
             f_gender = Option.bind u gender,
             f_occupation = Option.bind u occupation,
             f_age_group = Option.bind u age_group\<rparr>) final_data2)"

subsection \<open>Matrix builder\<close>

text \<open>
  An exception of the Python run time is a value of \<open>py_error\<close>; a function that can raise
  returns \<open>Inl\<close> of the error or \<open>Inr\<close> of its result.
\<close>

datatype py_error = ZeroDivisionError | FileNotFoundError string | ParserError

text \<open>
  A pivoted table: the row labels (user ids), the column labels (item ids) and the cells
  by row.
\<close>

record 'c matrix =
  index :: "int list"
  columns :: "int list"
  cells :: "'c list list"

text \<open>The default aggregation of \<^verbatim>\<open>pivot_table\<close> is the mean of the group.\<close>

definition mean :: "int list \<Rightarrow> rat" where
  "mean vs = of_int (sum_list vs) / of_nat (length vs)"

text \<open>
  \<^verbatim>\<open>final_data.pivot_table(index='user_id', columns='item_id', values='rating')\<close>: the
  labels are the distinct ids in ascending order, a cell is the aggregate of the ratings
  of its (user, item) group, and null when the group is empty.
\<close>

definition pivot_table :: "final_row list \<Rightarrow> rat option matrix" where
  "pivot_table final_data =
     (let idx = sort (remdups (map f_user_id final_data));
          cols = sort (remdups (map f_item_id final_data))
      in \<lparr>index = idx, columns = cols,
          cells = map (\<lambda>u. map (\<lambda>i.
                    (let vs = map f_rating
                                (filter (\<lambda>r. f_user_id r = u \<and> f_item_id r = i) final_data)
                     in if vs = [] then None else Some (mean vs))) cols) idx\<rparr>)"

definition fillna :: "'c \<Rightarrow> 'c option matrix \<Rightarrow> 'c matrix" where
  "fillna v m =
     \<lparr>index = index m, columns = columns m,
      cells = map (map (\<lambda>c. case c of None \<Rightarrow> v | Some x \<Rightarrow> x)) (cells m)\<rparr>"

text \<open>\<^verbatim>\<open>Series.nunique()\<close>.\<close>

definition nunique :: "'a list \<Rightarrow> nat" where
  "nunique xs = length (remdups xs)"

text \<open>
  Line 240, \<^verbatim>\<open>(1 - actual_ratings / total_possible_ratings) * 100\<close>, on Python integers:
  the division raises when the divisor is 0.
\<close>

definition sparsity_percent :: "nat \<Rightarrow> nat \<Rightarrow> py_error + rat" where
  "sparsity_percent actual_ratings total_possible_ratings =
     (if total_possible_ratings = 0 then Inl ZeroDivisionError
      else Inr ((1 - of_nat actual_ratings / of_nat total_possible_ratings) * 100))"

text \<open>Lines 238 to 240: the sparsity of the triple list \<^verbatim>\<open>svd_data\<close>.\<close>

definition sparsity :: "(int \<times> int \<times> int) list \<Rightarrow> py_error + rat" where
  "sparsity svd_data =
     (let total_possible_ratings =
            nunique (map (\<lambda>(u, i, r). u) svd_data) * nunique (map (\<lambda>(u, i, r). i) svd_data);
          actual_ratings = length svd_data
      in sparsity_percent actual_ratings total_possible_ratings)"

text \<open>
  \<^verbatim>\<open>prepare_svd_data\<close> returns the matrix and the triple list; the sparsity is computed
  and printed on the way, so its exception is the function's.
\<close>

definition prepare_svd_data ::
  "final_row list \<Rightarrow> py_error + (rat matrix \<times> (int \<times> int \<times> int) list)" where
  "prepare_svd_data final_data =
     (let user_item_matrix = fillna 0 (pivot_table final_data);
          svd_data = map (\<lambda>r. (f_user_id r, f_item_id r, f_rating r)) final_data
      in case sparsity svd_data of
           Inl e \<Rightarrow> Inl e
         | Inr s \<Rightarrow> Inr (user_item_matrix, svd_data))"

text \<open>
  Reading a cell by its labels, \<^verbatim>\<open>matrix.loc[u, i]\<close>: \<open>None\<close> when a label is not in the
  matrix.
\<close>

fun position :: "'a \<Rightarrow> 'a list \<Rightarrow> nat option" where
  "position x [] = None"
| "position x (y # ys) = (if x = y then Some 0 else map_option Suc (position x ys))"

definition cell :: "'c matrix \<Rightarrow> int \<Rightarrow> int \<Rightarrow> 'c option" where
  "cell m u i =
     (case position u (index m) of
        None \<Rightarrow> None
      | Some a \<Rightarrow> (case position i (columns m) of
                     None \<Rightarrow> None
                   | Some b \<Rightarrow> Some (cells m ! a ! b)))"

subsection \<open>Loader\<close>

text \<open>
  The files the loader reads: a path is mapped to \<open>None\<close> when no file is there, and
  otherwise to the records of the file in order, each the list of its fields as the
  tokenizer splits them at the separator (blank lines are skipped by the reader and are
  not records).
\<close>

type_synonym filesystem = "string \<Rightarrow> string list list option"

text \<open>\<^verbatim>\<open>os.path.join(a, b)\<close> for a relative \<open>b\<close>.\<close>

definition path_join :: "string \<Rightarrow> string \<Rightarrow> string" where
  "path_join a b = (if a = [] then b else if last a = CHR ''/'' then a @ b else a @ ''/'' @ b)"

text \<open>The field texts that \<^verbatim>\<open>read_csv\<close> reads as null by default.\<close>

definition STR_NA_VALUES :: "string list" where
  "STR_NA_VALUES = ['''', ''#N/A'', ''#N/A N/A'', ''#NA'', ''-1.#IND'', ''-1.#QNAN'', ''-NaN'', ''-nan'',
     ''1.#IND'', ''1.#QNAN'', ''<NA>'', ''N/A'', ''NA'', ''NULL'', ''NaN'', ''None'', ''n/a'',
     ''nan'', ''null'']"

text \<open>
  \<^verbatim>\<open>pd.read_csv(path, sep=..., names=names, na_values=na_values)\<close>, with no header row in
  the file.  A missing file raises.  The expected number of fields is that of the first
  record or the number of names, whichever is larger; a record with more fields raises
  the parser's error, one with fewer is filled with nulls.  When the records are wider
  than the names, the surplus leading fields become the row labels and are not columns.
  The cells stay text: the column types the reader infers are not modelled here.
\<close>

definition read_csv ::
  "filesystem \<Rightarrow> string \<Rightarrow> string list \<Rightarrow> string list \<Rightarrow> py_error + string option list list" where
  "read_csv fs path names na_values =
     (case fs path of
        None \<Rightarrow> Inl (FileNotFoundError path)
      | Some lines \<Rightarrow>
          (let n = length names;
               width = (case lines of [] \<Rightarrow> n | first # rest \<Rightarrow> max (length first) n)
           in if list_ex (\<lambda>l. width < length l) lines then Inl ParserError
              else Inr (map (\<lambda>l. drop (width - n)
                               (map (\<lambda>f. if f \<in> set (STR_NA_VALUES @ na_values) then None else Some f) l
                                @ replicate (width - length l) None)) lines)))"

text \<open>The three \<^verbatim>\<open>names\<close> lists of \<^verbatim>\<open>load_raw_data\<close>.\<close>

definition ratings_names :: "string list" where
  "ratings_names = [''user_id'', ''item_id'', ''rating'', ''timestamp'']"

definition items_names :: "string list" where
  "items_names = [''item_id'', ''movie_title'', ''release_date'', ''video_release_date'', ''IMDb_URL'',
     ''unknown'', ''Action'', ''Adventure'', ''Animation'', ''Children's'', ''Comedy'', ''Crime'',
     ''Documentary'', ''Drama'', ''Fantasy'', ''Film-Noir'', ''Horror'', ''Musical'', ''Mystery'',
     ''Romance'', ''Sci-Fi'', ''Thriller'', ''War'', ''Western'']"

definition users_names :: "string list" where
  "users_names = [''user_id'', ''age'', ''gender'', ''occupation'', ''zip_code'']"

text \<open>The position of a column in the list of names.\<close>

definition column_index :: "string list \<Rightarrow> string \<Rightarrow> nat" where
  "column_index names name = length (takeWhile (\<lambda>n. n \<noteq> name) names)"

text \<open>\<^verbatim>\<open>astype(str)\<close> on a text column: a null becomes the text "nan".\<close>

definition astype_str :: "string option \<Rightarrow> string" where
  "astype_str v = (case v of None \<Rightarrow> ''nan'' | Some s \<Rightarrow> s)"

text \<open>
  \<^verbatim>\<open>str.replace(r"[^0-9A-Za-z\-]", "", regex=True)\<close> deletes every character that is not
  an ASCII digit, an ASCII letter or the hyphen.
\<close>

definition allowed_char :: "char \<Rightarrow> bool" where
  "allowed_char c =
     (let n = of_char c :: nat
      in (48 \<le> n \<and> n \<le> 57) \<or> (65 \<le> n \<and> n \<le> 90) \<or> (97 \<le> n \<and> n \<le> 122) \<or> n = 45)"

definition str_replace_disallowed :: "string \<Rightarrow> string" where
  "str_replace_disallowed s = filter allowed_char s"

text \<open>
  A cell of the loaded items table is text as read, or, in the release-date column, the
  result of the date parser.
\<close>

datatype loaded_cell = Raw "string option" | Parsed "date option"

text \<open>
  \<^verbatim>\<open>load_raw_data\<close>.  The parameter \<open>to_datetime\<close> stands for the library call
  \<^verbatim>\<open>pd.to_datetime(s, errors="coerce", dayfirst=True)\<close> on a column of strings: it returns
  a date or null for each of them.
\<close>

definition load_raw_data ::
  "(string list \<Rightarrow> date option list) \<Rightarrow> filesystem \<Rightarrow> string \<Rightarrow>
   py_error + (string option list list \<times> loaded_cell list list \<times> string option list list)" where
  "load_raw_data to_datetime fs data_dir =
     (case read_csv fs (path_join data_dir ''u.data'') ratings_names [] of
        Inl e \<Rightarrow> Inl e
      | Inr ratings \<Rightarrow>
     (case read_csv fs (path_join data_dir ''u.item'') items_names ['''', '' '', ''None''] of
        Inl e \<Rightarrow> Inl e
      | Inr items \<Rightarrow>
          (let k = column_index items_names ''release_date'';
               s = map (\<lambda>row. str_strip (astype_str (row ! k))) items;
               s = map str_replace_disallowed s;
               items = map2 (\<lambda>row d. (map Raw row)[k := Parsed d]) items (to_datetime s)
           in case read_csv fs (path_join data_dir ''u.user'') users_names [] of
                Inl e \<Rightarrow> Inl e
              | Inr users \<Rightarrow> Inr (ratings, items, users))))"

subsection \<open>Persister and pipeline\<close>

text \<open>\<^verbatim>\<open>save_cleaned_data\<close>: the three files it writes, in order (their contents are not modelled).\<close>

definition save_cleaned_data :: "string \<Rightarrow> string list" where
  "save_cleaned_data data_dir =
     [path_join data_dir ''final_data_cleaned.csv'',
      path_join data_dir ''svd_data.csv'',
      path_join data_dir ''user_item_matrix.csv'']"

text \<open>
  \<^verbatim>\<open>main\<close>: the result of the run and the files written.  The parameter \<open>typed\<close> stands
  for the column types that \<^verbatim>\<open>read_csv\<close> infers, which turn the loaded text cells into the
  typed tables of the cleaners.  The quality inspection only prints.
\<close>

definition main ::
  "(string list \<Rightarrow> date option list) \<Rightarrow>
   (string option list list \<times> loaded_cell list list \<times> string option list list \<Rightarrow>
      ratings_table \<times> item_row list \<times> user_row list) \<Rightarrow>
   filesystem \<Rightarrow> string \<Rightarrow>
   (py_error + (final_row list \<times> (int \<times> int \<times> int) list \<times> rat matrix)) \<times> string list" where
  "main to_datetime typed fs data_dir =
     (case load_raw_data to_datetime fs data_dir of
        Inl e \<Rightarrow> (Inl e, [])
      | Inr loaded \<Rightarrow>
          (case typed loaded of (ratings, items, users) \<Rightarrow>
             (let ratings_clean = cleaned (clean_ratings_data ratings);
                  items_clean = clean_items_data items;
                  users_clean = clean_users_data users;
                  final_data = integrate_data ratings_clean items_clean users_clean
              in case prepare_svd_data final_data of
                   Inl e \<Rightarrow> (Inl e, [])
                 | Inr (user_item_matrix, svd_data) \<Rightarrow>
                     (Inr (final_data, svd_data, user_item_matrix), save_cleaned_data data_dir))))"

subsection \<open>Example tables\<close>

text \<open>
  A ratings table with a repeated row, an out-of-range rating and two different ratings
  of item 1 by user 1; an items and a users table with a repeated key and untrimmed text.
\<close>

definition ex_ratings :: ratings_table where
  "ex_ratings = \<lparr>timestamp_dtype = Int64, rows =
     [\<lparr>user_id = 1, item_id = 1, rating = 1, timestamp = 10\<rparr>,
      \<lparr>user_id = 1, item_id = 1, rating = 4, timestamp = 20\<rparr>,
      \<lparr>user_id = 2, item_id = 3, rating = 5, timestamp = 20\<rparr>,
      \<lparr>user_id = 2, item_id = 3, rating = 5, timestamp = 20\<rparr>,
      \<lparr>user_id = 7, item_id = 1, rating = 9, timestamp = 30\<rparr>]\<rparr>"

definition ex_items :: "item_row list" where
  "ex_items =
     [\<lparr>i_item_id = 1, movie_title = Some ''  Toy Story (1995) '', release_date = Some (1995, 1, 1),
       video_release_date = None, IMDb_URL = None,
       genre_flag = (\<lambda>g. if g \<in> set [''Animation'', ''Children's'', ''Comedy''] then 1 else 0),
       release_year = None, genres = None\<rparr>,
      \<lparr>i_item_id = 1, movie_title = Some ''Other'', release_date = None,
       video_release_date = None, IMDb_URL = None, genre_flag = (\<lambda>g. 0),
       release_year = None, genres = None\<rparr>,
      \<lparr>i_item_id = 2, movie_title = Some ''GoldenEye (1995)'', release_date = None,
       video_release_date = None, IMDb_URL = None,
       genre_flag = (\<lambda>g. if g \<in> set [''Action'', ''Adventure'', ''Thriller''] then 1 else 0),
       release_year = None, genres = None\<rparr>]"

definition ex_users :: "user_row list" where
  "ex_users =
     [\<lparr>u_user_id = 1, age = 24, gender = Some ''m'', occupation = Some '' Technician '',
       zip_code = ''85711'', age_group = None\<rparr>,
      \<lparr>u_user_id = 1, age = 70, gender = Some ''F'', occupation = Some ''other'',
       zip_code = ''94043'', age_group = None\<rparr>,
      \<lparr>u_user_id = 5, age = 33, gender = Some ''F'', occupation = None,
       zip_code = ''15213'', age_group = None\<rparr>]"

text \<open>The integrated table of the three example tables, cleaned.\<close>

definition ex_final_data :: "final_row list" where
  "ex_final_data =
     integrate_data (cleaned (clean_ratings_data ex_ratings)) (clean_items_data ex_items)
       (clean_users_data ex_users)"

text \<open>
  Three files under \<^verbatim>\<open>data\<close>, with an untidy and an unparseable release date, a date
  parser that knows one date, and the same files with a \<^verbatim>\<open>u.user\<close> of four columns.
\<close>

definition ex_parser :: "string list \<Rightarrow> date option list" where
  "ex_parser xs = map (\<lambda>s. if s = ''01-Jan-1995'' then Some (1995, 1, 1) else None) xs"

definition ex_fs :: filesystem where
  "ex_fs = (\<lambda>p. if p = ''data/u.data'' then Some [[''1'', ''1'', ''5'', ''874965758'']]
             else if p = ''data/u.item'' then
               Some [[''1'', ''Toy Story (1995)'', '' 01-Jan-1995?'', '''', ''http://x'',
                      ''0'', ''0'', ''0'', ''1'', ''1'', ''1'', ''0'', ''0'', ''0'', ''0'', ''0'', ''0'',
                      ''0'', ''0'', ''0'', ''0'', ''0'', ''0'', ''0''],
                     [''2'', ''GoldenEye (1995)'', ''tomorrow'', '''', ''http://y'',
                      ''0'', ''1'', ''1'', ''0'', ''0'', ''0'', ''0'', ''0'', ''0'', ''0'', ''0'', ''0'',
                      ''0'', ''0'', ''0'', ''0'', ''1'', ''0'', ''0'']]
             else if p = ''data/u.user'' then Some [[''1'', ''24'', ''M'', ''technician'', ''85711'']]
             else None)"

definition ex_fs_short :: filesystem where
  "ex_fs_short = ex_fs(''data/u.user'' \<mapsto> [[''1'', ''24'', ''M'', ''technician'']])"

section \<open>Auxiliary facts\<close>

subsection \<open>Dropping duplicates\<close>

lemma duplicated_scan_keys:
  "key ` set (duplicated_scan key seen rs) = key ` set rs - set seen"
  by (induction rs arbitrary: seen) auto

lemma duplicated_scan_distinct: "distinct (map key (duplicated_scan key seen rs))"
proof (induction rs arbitrary: seen)
  case Nil
  show ?case by simp
next
  case (Cons r rs)
  have "key r \<notin> key ` set (duplicated_scan key (key r # seen) rs)"
    by (simp add: duplicated_scan_keys)
  with Cons show ?case by simp
qed

lemma duplicated_scan_fixed:
  "distinct (map key rs) \<Longrightarrow> key ` set rs \<inter> set seen = {} \<Longrightarrow> duplicated_scan key seen rs = rs"
  by (induction rs arbitrary: seen) auto

lemma duplicated_scan_map:
  "(\<And>r. key (f r) = key r) \<Longrightarrow>
   duplicated_scan key seen (map f rs) = map f (duplicated_scan key seen rs)"
  by (induction rs arbitrary: seen) auto

lemma duplicated_scan_id_set: "set (duplicated_scan (\<lambda>r. r) seen rs) = set rs - set seen"
  using duplicated_scan_keys [of "\<lambda>r. r" seen rs] by simp

lemma drop_duplicates_set: "set (drop_duplicates rs) = set rs"
  by (simp add: drop_duplicates_def drop_duplicates_subset_def duplicated_scan_id_set)

lemma drop_duplicates_distinct: "distinct (drop_duplicates rs)"
  using duplicated_scan_distinct [of "\<lambda>r. r" "[]" rs]
  by (simp add: drop_duplicates_def drop_duplicates_subset_def)

lemma drop_duplicates_fixed: "distinct rs \<Longrightarrow> drop_duplicates rs = rs"
  using duplicated_scan_fixed [of "\<lambda>r. r" rs "[]"]
  by (simp add: drop_duplicates_def drop_duplicates_subset_def)

lemma drop_duplicates_subset_distinct: "distinct (map key (drop_duplicates_subset key rs))"
  by (simp add: drop_duplicates_subset_def duplicated_scan_distinct)

lemma drop_duplicates_subset_fixed:
  "distinct (map key rs) \<Longrightarrow> drop_duplicates_subset key rs = rs"
  by (simp add: drop_duplicates_subset_def duplicated_scan_fixed)

lemma drop_duplicates_subset_map:
  "(\<And>r. key (f r) = key r) \<Longrightarrow>
   drop_duplicates_subset key (map f rs) = map f (drop_duplicates_subset key rs)"
  by (simp add: drop_duplicates_subset_def duplicated_scan_map)

subsection \<open>Text\<close>

lemma dropWhile_fixed: "xs = [] \<or> \<not> P (hd xs) \<Longrightarrow> dropWhile P xs = xs"
  by (cases xs) auto

lemma str_strip_idem: "str_strip (str_strip s) = str_strip s"
proof -
  define t where "t = dropWhile isspace s"
  define u where "u = rev (dropWhile isspace (rev t))"
  have ht: "t = [] \<or> \<not> isspace (hd t)"
    unfolding t_def by (metis hd_dropWhile)
  have "rev t = takeWhile isspace (rev t) @ dropWhile isspace (rev t)" by simp
  then have "t = u @ rev (takeWhile isspace (rev t))"
    unfolding u_def by (metis rev_append rev_rev_ident)
  then obtain w where tw: "t = u @ w" ..
  have "u = [] \<or> \<not> isspace (hd u)"
  proof (cases u)
    case Nil
    then show ?thesis by simp
  next
    case (Cons a list)
    with tw have "hd t = hd u" and "t \<noteq> []" by simp_all
    with ht show ?thesis by simp
  qed
  then have "dropWhile isspace u = u" by (rule dropWhile_fixed)
  moreover have "dropWhile isspace (rev u) = rev u"
    unfolding u_def by (simp add: dropWhile_idem)
  ultimately show ?thesis
    unfolding str_strip_def t_def [symmetric] u_def [symmetric] by simp
qed

lemma of_char_lower_char:
  "(of_char (lower_char c) :: nat) =
     (if 65 \<le> (of_char c :: nat) \<and> (of_char c :: nat) \<le> 90 then of_char c + 32 else of_char c)"
  by (simp add: lower_char_def Let_def)

lemma of_char_upper_char:
  "(of_char (upper_char c) :: nat) =
     (if 97 \<le> (of_char c :: nat) \<and> (of_char c :: nat) \<le> 122 then of_char c - 32 else of_char c)"
  by (auto simp: upper_char_def Let_def)

lemma isspace_lower_char: "isspace (lower_char c) = isspace c"
  by (simp add: isspace_def of_char_lower_char)

lemma lower_char_idem: "lower_char (lower_char c) = lower_char c"
proof -
  have "(of_char (lower_char (lower_char c)) :: nat) = of_char (lower_char c)"
    by (simp add: of_char_lower_char)
  then show ?thesis by simp
qed

lemma upper_char_idem: "upper_char (upper_char c) = upper_char c"
proof -
  have "(of_char (upper_char (upper_char c)) :: nat) = of_char (upper_char c)"
    by (auto simp: of_char_upper_char)
  then show ?thesis by simp
qed

lemma str_strip_lower: "str_strip (str_lower s) = str_lower (str_strip s)"
  unfolding str_strip_def str_lower_def
  by (simp add: dropWhile_map rev_map comp_def isspace_lower_char)

lemma str_lower_idem: "str_lower (str_lower s) = str_lower s"
  by (simp add: str_lower_def lower_char_idem)

lemma str_upper_idem: "str_upper (str_upper s) = str_upper s"
  by (simp add: str_upper_def upper_char_idem)

subsection \<open>Ratings cleaner\<close>

lemma clean_ratings_rows:
  "rows (cleaned (clean_ratings_data ratings)) =
     map (\<lambda>r. r\<lparr>timestamp := to_datetime_s (timestamp_dtype ratings) (timestamp r)\<rparr>)
       (filter (\<lambda>r. 1 \<le> rating r \<and> rating r \<le> 5) (drop_duplicates (rows ratings)))"
proof -
  let ?d = "drop_duplicates (rows ratings)"
  have "filter (\<lambda>r. rating r < 1 \<or> 5 < rating r) ?d = [] \<Longrightarrow>
        filter (\<lambda>r. 1 \<le> rating r \<and> rating r \<le> 5) ?d = ?d"
    by (auto simp: filter_empty_conv filter_id_conv)
  then show ?thesis
    by (auto simp: clean_ratings_data_def Let_def)
qed

lemma clean_ratings_dtype: "timestamp_dtype (cleaned (clean_ratings_data ratings)) = Datetime64"
  by (simp add: clean_ratings_data_def Let_def)

lemma to_datetime_s_inj: "to_datetime_s dt v = to_datetime_s dt w \<Longrightarrow> v = w"
  by (cases dt) (simp_all add: to_datetime_s_def)

lemma convert_inj:
  "inj (\<lambda>r::rating_row. r\<lparr>timestamp := to_datetime_s dt (timestamp r)\<rparr>)"
proof (rule injI)
  fix x y :: rating_row
  assume "x\<lparr>timestamp := to_datetime_s dt (timestamp x)\<rparr> = y\<lparr>timestamp := to_datetime_s dt (timestamp y)\<rparr>"
  then show "x = y"
    by (cases x, cases y) (auto dest: to_datetime_s_inj)
qed

lemma clean_ratings_distinct: "distinct (rows (cleaned (clean_ratings_data ratings)))"
proof -
  have "distinct (filter (\<lambda>r. 1 \<le> rating r \<and> rating r \<le> 5) (drop_duplicates (rows ratings)))"
    by (simp add: drop_duplicates_distinct)
  then show ?thesis
    unfolding clean_ratings_rows using convert_inj [of "timestamp_dtype ratings"]
    by (simp add: distinct_map inj_on_def inj_def)
qed

lemma clean_ratings_idem:
  "cleaned (clean_ratings_data (cleaned (clean_ratings_data ratings))) =
   cleaned (clean_ratings_data ratings)"
proof -
  let ?c = "cleaned (clean_ratings_data ratings)"
  have ok: "filter (\<lambda>r. 1 \<le> rating r \<and> rating r \<le> 5) (rows ?c) = rows ?c"
    unfolding clean_ratings_rows [of ratings] by (simp add: filter_map comp_def)
  have "rows (cleaned (clean_ratings_data ?c)) = rows ?c"
    unfolding clean_ratings_rows [of ?c]
    by (simp add: drop_duplicates_fixed clean_ratings_distinct ok clean_ratings_dtype to_datetime_s_def)
  moreover have "timestamp_dtype (cleaned (clean_ratings_data ?c)) = timestamp_dtype ?c"
    by (simp add: clean_ratings_dtype)
  ultimately show ?thesis by simp
qed

subsection \<open>Users cleaner\<close>

lemma clean_users_data_eq:
  "clean_users_data users =
     map (\<lambda>u. u\<lparr>occupation := map_option (\<lambda>s. str_lower (str_strip s)) (occupation u),
               gender := map_option str_upper (gender u),
               age_group := Some (categorize_age (user_row.age u))\<rparr>)
       (drop_duplicates_subset u_user_id users)"
  by (simp add: clean_users_data_def Let_def comp_def)

lemma clean_users_keys: "distinct (map u_user_id (clean_users_data users))"
  by (simp add: clean_users_data_eq comp_def drop_duplicates_subset_distinct)

lemma clean_users_idem: "clean_users_data (clean_users_data users) = clean_users_data users"
proof -
  define g where "g = (\<lambda>u::user_row.
     u\<lparr>occupation := map_option (\<lambda>s. str_lower (str_strip s)) (occupation u),
       gender := map_option str_upper (gender u),
       age_group := Some (categorize_age (user_row.age u))\<rparr>)"
  have gg: "g (g u) = g u" for u
    by (simp add: g_def option.map_comp comp_def str_strip_lower str_strip_idem
        str_lower_idem str_upper_idem)
  have eq: "clean_users_data us = map g (drop_duplicates_subset u_user_id us)" for us
    by (simp add: g_def clean_users_data_eq)
  have "drop_duplicates_subset u_user_id (clean_users_data users) = clean_users_data users"
    by (rule drop_duplicates_subset_fixed) (rule clean_users_keys)
  then have "clean_users_data (clean_users_data users) = map g (clean_users_data users)"
    by (simp add: eq [of "clean_users_data users"])
  also have "\<dots> = clean_users_data users"
    by (simp add: eq [of users] gg)
  finally show ?thesis .
qed

subsection \<open>Items cleaner\<close>

lemma astype_int_flags:
  "(\<lambda>col. if col \<in> S then astype_int (f col) else f col) = f"
  by (simp add: astype_int_def fun_eq_iff)

lemma clean_items_data_eq:
  "clean_items_data items =
     map (\<lambda>it. it\<lparr>movie_title := map_option str_strip (movie_title it),
                release_year := map_option to_numeric
                  (Option.bind (map_option str_strip (movie_title it)) str_extract_year),
                genres := Some (get_genres it)\<rparr>)
       (drop_duplicates_subset i_item_id items)"
  by (simp add: clean_items_data_def Let_def comp_def astype_int_flags get_genres_def)

lemma clean_items_keys: "distinct (map i_item_id (clean_items_data items))"
  by (simp add: clean_items_data_eq comp_def drop_duplicates_subset_distinct)

lemma clean_items_idem: "clean_items_data (clean_items_data items) = clean_items_data items"
proof -
  define h where "h = (\<lambda>it::item_row.
     it\<lparr>movie_title := map_option str_strip (movie_title it),
        release_year := map_option to_numeric
          (Option.bind (map_option str_strip (movie_title it)) str_extract_year),
        genres := Some (get_genres it)\<rparr>)"
  have hh: "h (h it) = h it" for it
    by (simp add: h_def option.map_comp comp_def str_strip_idem get_genres_def)
  have eq: "clean_items_data its = map h (drop_duplicates_subset i_item_id its)" for its
    by (simp add: h_def clean_items_data_eq)
  have "drop_duplicates_subset i_item_id (clean_items_data items) = clean_items_data items"
    by (rule drop_duplicates_subset_fixed) (rule clean_items_keys)
  then have "clean_items_data (clean_items_data items) = map h (clean_items_data items)"
    by (simp add: eq [of "clean_items_data items"])
  also have "\<dots> = clean_items_data items"
    by (simp add: eq [of items] hh)
  finally show ?thesis .
qed

lemma genres_loop_filter: "genres_loop row gs acc = acc @ filter (\<lambda>g. row g = 1) gs"
  by (induction gs arbitrary: acc) simp_all

lemma tl_genre_cols:
  "tl genre_cols = [''Action'', ''Adventure'', ''Animation'', ''Children's'', ''Comedy'',
                 ''Crime'', ''Documentary'', ''Drama'', ''Fantasy'', ''Film-Noir'', ''Horror'',
                 ''Musical'', ''Mystery'', ''Romance'', ''Sci-Fi'', ''Thriller'', ''War'', ''Western'']"
  by (simp add: genre_cols_def)

lemma get_genres_filter:
  "get_genres row =
     (if filter (\<lambda>g. genre_flag row g = 1) (tl genre_cols) = [] then ''Unknown''
      else str_join '', '' (filter (\<lambda>g. genre_flag row g = 1) (tl genre_cols)))"
  by (simp add: get_genres_def genres_loop_filter Let_def)

lemma hd_str_join: "xs \<noteq> [] \<Longrightarrow> hd xs \<noteq> [] \<Longrightarrow> hd (str_join sep xs) = hd (hd xs)"
  by (induction sep xs rule: str_join.induct) simp_all

lemma genre_name_head: "g \<in> set (tl genre_cols) \<Longrightarrow> g \<noteq> [] \<and> hd g \<noteq> CHR ''U''"
  by (auto simp: tl_genre_cols)

lemma str_join_genres_not_Unknown:
  assumes "xs \<noteq> []" and "set xs \<subseteq> set (tl genre_cols)"
  shows "str_join sep xs \<noteq> ''Unknown''"
proof -
  from assms have "hd xs \<in> set (tl genre_cols)" by (cases xs) auto
  then have h: "hd xs \<noteq> [] \<and> hd (hd xs) \<noteq> CHR ''U''" by (rule genre_name_head)
  with assms(1) have "hd (str_join sep xs) \<noteq> CHR ''U''" by (simp add: hd_str_join)
  then show ?thesis by auto
qed

lemma get_genres_all_zero:
  assumes "\<forall>g\<in>set genre_cols. genre_flag row g = 0"
  shows "get_genres row = ''Unknown''"
proof -
  have "set (tl genre_cols) \<subseteq> set genre_cols" by (simp add: genre_cols_def)
  with assms have "\<forall>g\<in>set (tl genre_cols). genre_flag row g \<noteq> 1" by auto
  then have "filter (\<lambda>g. genre_flag row g = 1) (tl genre_cols) = []"
    by (simp add: filter_empty_conv)
  then show ?thesis by (simp add: get_genres_filter)
qed

lemma get_genres_only_Action:
  assumes "genre_flag row ''Action'' = 1"
    and "\<forall>g\<in>set genre_cols. g \<noteq> ''Action'' \<longrightarrow> genre_flag row g = 0"
  shows "get_genres row = ''Action''"
proof -
  from assms(2) have z: "genre_flag row ''Adventure'' = 0" "genre_flag row ''Animation'' = 0"
    "genre_flag row ''Children's'' = 0" "genre_flag row ''Comedy'' = 0" "genre_flag row ''Crime'' = 0"
    "genre_flag row ''Documentary'' = 0" "genre_flag row ''Drama'' = 0" "genre_flag row ''Fantasy'' = 0"
    "genre_flag row ''Film-Noir'' = 0" "genre_flag row ''Horror'' = 0" "genre_flag row ''Musical'' = 0"
    "genre_flag row ''Mystery'' = 0" "genre_flag row ''Romance'' = 0" "genre_flag row ''Sci-Fi'' = 0"
    "genre_flag row ''Thriller'' = 0" "genre_flag row ''War'' = 0" "genre_flag row ''Western'' = 0"
    by (simp_all add: genre_cols_def)
  have "filter (\<lambda>g. genre_flag row g = 1) (tl genre_cols) = [''Action'']"
    unfolding tl_genre_cols by (simp add: assms(1) z)
  then show ?thesis by (simp add: get_genres_filter)
qed

lemma get_genres_Unknown_iff:
  "(get_genres row = ''Unknown'') = (filter (\<lambda>g. genre_flag row g = 1) (tl genre_cols) = [])"
  using str_join_genres_not_Unknown [of "filter (\<lambda>g. genre_flag row g = 1) (tl genre_cols)" "'', ''"]
  by (auto simp: get_genres_filter)

subsection \<open>Integrator\<close>

lemma filter_distinct_key:
  "distinct (map key xs) \<Longrightarrow>
   filter (\<lambda>r. key r = v) xs = (case find (\<lambda>r. key r = v) xs of None \<Rightarrow> [] | Some r \<Rightarrow> [r])"
proof (induction xs)
  case Nil
  show ?case by simp
next
  case (Cons x xs)
  show ?case
  proof (cases "key x = v")
    case True
    from Cons.prems have "key x \<notin> key ` set xs" by simp
    then have "\<forall>r\<in>set xs. key r \<noteq> key x" by (metis imageI)
    with True have "\<forall>r\<in>set xs. key r \<noteq> v" by simp
    then have "filter (\<lambda>r. key r = v) xs = []" by (simp add: filter_empty_conv)
    with True show ?thesis by simp
  next
    case False
    with Cons show ?thesis by simp
  qed
qed

lemma merge_left_distinct:
  assumes "distinct (map right_on right)"
  shows "merge_left left_on right_on left right =
         map (\<lambda>l. (l, find (\<lambda>r. right_on r = left_on l) right)) left"
proof -
  have "(case filter (\<lambda>r. right_on r = left_on l) right of
            [] \<Rightarrow> [(l, None)] | m # ms \<Rightarrow> map (\<lambda>r. (l, Some r)) (m # ms)) =
        [(l, find (\<lambda>r. right_on r = left_on l) right)]" for l
    by (simp add: filter_distinct_key [OF assms] split: option.split)
  then show ?thesis
    by (simp add: merge_left_def)
qed

lemma integrate_data_distinct:
  assumes "distinct (map i_item_id items)" and "distinct (map u_user_id users)"
  shows "integrate_data ratings items users =
     map (\<lambda>r. \<lparr>f_user_id = user_id r, f_item_id = item_id r, f_rating = rating r,
             f_timestamp = timestamp r,
             f_movie_title = Option.bind (find (\<lambda>it. i_item_id it = item_id r) items) movie_title,
             f_release_year = Option.bind (find (\<lambda>it. i_item_id it = item_id r) items) release_year,
             f_genres = Option.bind (find (\<lambda>it. i_item_id it = item_id r) items) genres,
             f_age = map_option user_row.age (find (\<lambda>u. u_user_id u = user_id r) users),
             f_gender = Option.bind (find (\<lambda>u. u_user_id u = user_id r) users) gender,
             f_occupation = Option.bind (find (\<lambda>u. u_user_id u = user_id r) users) occupation,
             f_age_group = Option.bind (find (\<lambda>u. u_user_id u = user_id r) users) age_group\<rparr>)
       (rows ratings)"
  by (simp add: integrate_data_def Let_def merge_left_distinct [OF assms(1)]
      merge_left_distinct [OF assms(2)] comp_def)

lemma find_key_None: "k \<notin> key ` set xs \<Longrightarrow> find (\<lambda>x. key x = k) xs = None"
  by (induction xs) auto

lemma find_key_Some:
  "distinct (map key xs) \<Longrightarrow> x \<in> set xs \<Longrightarrow> key x = v \<Longrightarrow> find (\<lambda>y. key y = v) xs = Some x"
proof (induction xs)
  case Nil
  then show ?case by simp
next
  case (Cons a xs)
  then show ?case by (cases "a = x") auto
qed

subsection \<open>Matrix builder\<close>

lemma position_Some:
  "x \<in> set xs \<Longrightarrow> \<exists>k. position x xs = Some k \<and> k < length xs \<and> xs ! k = x"
  by (induction xs) auto

lemma position_None: "x \<notin> set xs \<Longrightarrow> position x xs = None"
  by (induction xs) auto

lemma cell_pivot:
  assumes "u \<in> set (index (pivot_table fd))" and "i \<in> set (columns (pivot_table fd))"
  shows "cell (fillna 0 (pivot_table fd)) u i =
     Some (let vs = map f_rating (filter (\<lambda>r. f_user_id r = u \<and> f_item_id r = i) fd)
           in if vs = [] then 0 else mean vs)"
proof -
  let ?idx = "sort (remdups (map f_user_id fd))"
  let ?cols = "sort (remdups (map f_item_id fd))"
  from assms have "u \<in> set ?idx" and "i \<in> set ?cols"
    by (simp_all add: pivot_table_def Let_def)
  then obtain a b where a: "position u ?idx = Some a" "a < length ?idx" "?idx ! a = u"
    and b: "position i ?cols = Some b" "b < length ?cols" "?cols ! b = i"
    using position_Some [of u ?idx] position_Some [of i ?cols] by blast
  then show ?thesis
    by (simp add: cell_def fillna_def pivot_table_def Let_def)
qed

lemma sparsity_nonempty:
  assumes "svd \<noteq> []"
  shows "sparsity svd = Inr ((1 - of_nat (length svd) /
           of_nat (nunique (map (\<lambda>(u, i, r). u) svd) * nunique (map (\<lambda>(u, i, r). i) svd))) * 100)"
proof -
  from assms have "remdups (map (\<lambda>(u, i, r). u) svd) \<noteq> []" and "remdups (map (\<lambda>(u, i, r). i) svd) \<noteq> []"
    by simp_all
  then have "nunique (map (\<lambda>(u, i, r). u) svd) * nunique (map (\<lambda>(u, i, r). i) svd) \<noteq> 0"
    by (simp add: nunique_def)
  then show ?thesis
    by (simp add: sparsity_def sparsity_percent_def Let_def)
qed

lemma prepare_svd_data_nonempty:
  "fd \<noteq> [] \<Longrightarrow> prepare_svd_data fd =
     Inr (fillna 0 (pivot_table fd), map (\<lambda>r. (f_user_id r, f_item_id r, f_rating r)) fd)"
  using sparsity_nonempty [of "map (\<lambda>r. (f_user_id r, f_item_id r, f_rating r)) fd"]
  by (simp add: prepare_svd_data_def Let_def)

lemma prepare_svd_data_empty: "prepare_svd_data [] = Inl ZeroDivisionError"
  by (simp add: prepare_svd_data_def sparsity_def sparsity_percent_def nunique_def)

lemma prepare_svd_data_Inr:
  "prepare_svd_data fd = Inr (m, svd) \<Longrightarrow>
     fd \<noteq> [] \<and> m = fillna 0 (pivot_table fd) \<and> svd = map (\<lambda>r. (f_user_id r, f_item_id r, f_rating r)) fd"
  by (cases "fd = []") (simp_all add: prepare_svd_data_empty prepare_svd_data_nonempty)

lemma mean_const:
  assumes "vs \<noteq> []" and "\<forall>v\<in>set vs. v = r"
  shows "mean vs = of_int r"
proof -
  from assms(2) have "vs = replicate (length vs) r"
    by (induction vs) auto
  then have "sum_list vs = int (length vs) * r"
    by (metis sum_list_replicate)
  moreover from assms(1) have "length vs \<noteq> 0" by simp
  ultimately show ?thesis
    by (simp add: mean_def)
qed

lemma triples_of_pair:
  "(u, i, r) \<in> set (map (\<lambda>x. (f_user_id x, f_item_id x, f_rating x)) fd) \<longleftrightarrow>
   r \<in> set (map f_rating (filter (\<lambda>x. f_user_id x = u \<and> f_item_id x = i) fd))"
  by auto

subsection \<open>Loader and pipeline\<close>

lemma read_csv_absent: "fs path = None \<Longrightarrow> read_csv fs path names na = Inl (FileNotFoundError path)"
  by (simp add: read_csv_def)

lemma read_csv_narrow:
  assumes "fs path = Some lines" and "\<forall>l\<in>set lines. length l \<le> length names"
  shows "read_csv fs path names na =
     Inr (map (\<lambda>l. map (\<lambda>f. if f \<in> set (STR_NA_VALUES @ na) then None else Some f) l
                   @ replicate (length names - length l) None) lines)"
proof -
  have w: "(case lines of [] \<Rightarrow> length names | first # rest \<Rightarrow> max (length first) (length names))
             = length names"
    using assms(2) by (cases lines) (simp_all add: max_def)
  have "\<not> list_ex (\<lambda>l. length names < length l) lines"
    using assms(2) by (auto simp: list_ex_iff)
  then show ?thesis
    by (simp add: read_csv_def assms(1) w Let_def)
qed

lemma read_csv_row_length:
  assumes "read_csv fs path names na = Inr rs" and "r \<in> set rs"
  shows "length r = length names"
proof -
  from assms(1) obtain lines where l: "fs path = Some lines"
    by (cases "fs path") (simp_all add: read_csv_def)
  define width where
    "width = (case lines of [] \<Rightarrow> length names | first # rest \<Rightarrow> max (length first) (length names))"
  have wn: "length names \<le> width"
    unfolding width_def by (cases lines) simp_all
  from assms(1) l have ok: "\<not> list_ex (\<lambda>l. width < length l) lines"
    and rs: "rs = map (\<lambda>l. drop (width - length names)
                (map (\<lambda>f. if f \<in> set (STR_NA_VALUES @ na) then None else Some f) l
                 @ replicate (width - length l) None)) lines"
    by (auto simp: read_csv_def Let_def width_def split: if_splits)
  from assms(2) rs obtain l where "l \<in> set lines" and
    r: "r = drop (width - length names)
              (map (\<lambda>f. if f \<in> set (STR_NA_VALUES @ na) then None else Some f) l
               @ replicate (width - length l) None)"
    by auto
  with ok have "length l \<le> width" by (auto simp: list_ex_iff)
  with wn show ?thesis by (simp add: r)
qed

lemma isspace_not_allowed: "isspace c \<Longrightarrow> \<not> allowed_char c"
  by (auto simp: isspace_def allowed_char_def Let_def)

lemma filter_dropWhile_disjoint:
  "(\<And>x. Q x \<Longrightarrow> \<not> P x) \<Longrightarrow> filter P (dropWhile Q xs) = filter P xs"
  by (induction xs) auto

lemma filter_allowed_strip: "filter allowed_char (str_strip s) = filter allowed_char s"
proof -
  have "filter allowed_char (str_strip s) = rev (filter allowed_char (dropWhile isspace (rev (dropWhile isspace s))))"
    by (simp add: str_strip_def rev_filter)
  also have "\<dots> = rev (filter allowed_char (rev (dropWhile isspace s)))"
    by (simp add: filter_dropWhile_disjoint isspace_not_allowed)
  also have "\<dots> = filter allowed_char (dropWhile isspace s)"
    by (simp add: rev_filter)
  also have "\<dots> = filter allowed_char s"
    by (simp add: filter_dropWhile_disjoint isspace_not_allowed)
  finally show ?thesis .
qed

lemma release_date_index: "column_index items_names ''release_date'' = 2"
  by (simp add: column_index_def items_names_def)

lemma names_lengths: "length ratings_names = 4" "length items_names = 24" "length users_names = 5"
  by (simp_all add: ratings_names_def items_names_def users_names_def)

lemma load_raw_data_isl:
  "isl (load_raw_data to_datetime fs data_dir) =
     (isl (read_csv fs (path_join data_dir ''u.data'') ratings_names [])
      \<or> isl (read_csv fs (path_join data_dir ''u.item'') items_names ['''', '' '', ''None''])
      \<or> isl (read_csv fs (path_join data_dir ''u.user'') users_names []))"
  by (simp add: load_raw_data_def Let_def split: sum.splits)

lemma load_raw_data_Inr:
  assumes "load_raw_data to_datetime fs data_dir = Inr (ratings, items, users)"
  shows "\<exists>raw. read_csv fs (path_join data_dir ''u.data'') ratings_names [] = Inr ratings
     \<and> read_csv fs (path_join data_dir ''u.item'') items_names ['''', '' '', ''None''] = Inr raw
     \<and> read_csv fs (path_join data_dir ''u.user'') users_names [] = Inr users
     \<and> items = map2 (\<lambda>row d. (map Raw row)[2 := Parsed d]) raw
         (to_datetime (map (\<lambda>row. filter allowed_char (astype_str (row ! 2))) raw))"
  using assms
  by (auto simp: load_raw_data_def Let_def release_date_index str_replace_disallowed_def
      filter_allowed_strip comp_def split: sum.splits)

lemma main_load_fails:
  "isl (load_raw_data to_datetime fs data_dir) \<Longrightarrow> snd (main to_datetime typed fs data_dir) = []"
  by (cases "load_raw_data to_datetime fs data_dir") (simp_all add: main_def)

subsection \<open>The example tables\<close>

lemma ex_clean_ratings:
  "cleaned (clean_ratings_data ex_ratings) = \<lparr>timestamp_dtype = Datetime64, rows =
     [\<lparr>user_id = 1, item_id = 1, rating = 1, timestamp = 10000000000\<rparr>,
      \<lparr>user_id = 1, item_id = 1, rating = 4, timestamp = 20000000000\<rparr>,
      \<lparr>user_id = 2, item_id = 3, rating = 5, timestamp = 20000000000\<rparr>]\<rparr>"
  by (simp add: ex_ratings_def clean_ratings_data_def drop_duplicates_def
      drop_duplicates_subset_def to_datetime_s_def Let_def)

lemma char_of_eqI: "of_char c = (n::nat) \<Longrightarrow> char_of n = c"
  by (metis char_of_char)

lemma char_of_77: "char_of (77::nat) = CHR ''M''"
  by (rule char_of_eqI) simp

lemma char_of_116: "char_of (116::nat) = CHR ''t''"
  by (rule char_of_eqI) simp

lemma ex_clean_users:
  "clean_users_data ex_users =
     [\<lparr>u_user_id = 1, age = 24, gender = Some ''M'', occupation = Some ''technician'',
       zip_code = ''85711'', age_group = Some ''18-24''\<rparr>,
      \<lparr>u_user_id = 5, age = 33, gender = Some ''F'', occupation = None,
       zip_code = ''15213'', age_group = Some ''25-34''\<rparr>]"
  by (simp add: ex_users_def clean_users_data_eq drop_duplicates_subset_def categorize_age_def
      str_strip_def str_lower_def str_upper_def lower_char_def upper_char_def isspace_def Let_def
      char_of_77 char_of_116)

lemma ex_clean_items:
  "map (\<lambda>it. (i_item_id it, movie_title it, release_year it, genres it)) (clean_items_data ex_items) =
     [(1, Some ''Toy Story (1995)'', Some 1995, Some ''Animation, Children's, Comedy''),
      (2, Some ''GoldenEye (1995)'', Some 1995, Some ''Action, Adventure, Thriller'')]"
  by (simp add: ex_items_def clean_items_data_eq drop_duplicates_subset_def get_genres_filter
      tl_genre_cols str_strip_def isspace_def str_extract_year_def match_year_at_end_def
      isdigit_def to_numeric_def Let_def)

lemma ex_integrate:
  "ex_final_data =
   [\<lparr>f_user_id = 1, f_item_id = 1, f_rating = 1, f_timestamp = 10000000000,
     f_movie_title = Some ''Toy Story (1995)'', f_release_year = Some 1995,
     f_genres = Some ''Animation, Children's, Comedy'',
     f_age = Some 24, f_gender = Some ''M'', f_occupation = Some ''technician'',
     f_age_group = Some ''18-24''\<rparr>,
    \<lparr>f_user_id = 1, f_item_id = 1, f_rating = 4, f_timestamp = 20000000000,
     f_movie_title = Some ''Toy Story (1995)'', f_release_year = Some 1995,
     f_genres = Some ''Animation, Children's, Comedy'',
     f_age = Some 24, f_gender = Some ''M'', f_occupation = Some ''technician'',
     f_age_group = Some ''18-24''\<rparr>,
    \<lparr>f_user_id = 2, f_item_id = 3, f_rating = 5, f_timestamp = 20000000000,
     f_movie_title = None, f_release_year = None, f_genres = None,
     f_age = None, f_gender = None, f_occupation = None, f_age_group = None\<rparr>]"
  unfolding ex_final_data_def ex_clean_ratings ex_clean_users
  by (simp add: integrate_data_def merge_left_def ex_items_def clean_items_data_eq drop_duplicates_subset_def get_genres_filter
      tl_genre_cols str_strip_def isspace_def str_extract_year_def match_year_at_end_def
      isdigit_def to_numeric_def Let_def)

lemma ex_prepare:
  "prepare_svd_data ex_final_data =
   Inr (\<lparr>index = [1, 2], columns = [1, 3], cells = [[5 / 2, 0], [0, 5]]\<rparr>,
        [(1, 1, 1), (1, 1, 4), (2, 3, 5)])"
  unfolding ex_integrate
  by (simp add: prepare_svd_data_def sparsity_def sparsity_percent_def nunique_def Let_def
      fillna_def pivot_table_def mean_def)

lemma ex_fs_load:
  "load_raw_data ex_parser ex_fs ''data'' =
     Inr ([[Some ''1'', Some ''1'', Some ''5'', Some ''874965758'']],
          [[Raw (Some ''1''), Raw (Some ''Toy Story (1995)''), Parsed (Some (1995, 1, 1)), Raw None,
            Raw (Some ''http://x''), Raw (Some ''0''), Raw (Some ''0''), Raw (Some ''0''),
            Raw (Some ''1''), Raw (Some ''1''), Raw (Some ''1''), Raw (Some ''0''), Raw (Some ''0''),
            Raw (Some ''0''), Raw (Some ''0''), Raw (Some ''0''), Raw (Some ''0''), Raw (Some ''0''),
            Raw (Some ''0''), Raw (Some ''0''), Raw (Some ''0''), Raw (Some ''0''), Raw (Some ''0''),
            Raw (Some ''0'')],
           [Raw (Some ''2''), Raw (Some ''GoldenEye (1995)''), Parsed None, Raw None,
            Raw (Some ''http://y''), Raw (Some ''0''), Raw (Some ''1''), Raw (Some ''1''),
            Raw (Some ''0''), Raw (Some ''0''), Raw (Some ''0''), Raw (Some ''0''), Raw (Some ''0''),
            Raw (Some ''0''), Raw (Some ''0''), Raw (Some ''0''), Raw (Some ''0''), Raw (Some ''0''),
            Raw (Some ''0''), Raw (Some ''0''), Raw (Some ''0''), Raw (Some ''1''), Raw (Some ''0''),
            Raw (Some ''0'')]],
          [[Some ''1'', Some ''24'', Some ''M'', Some ''technician'', Some ''85711'']])"
  by (simp add: load_raw_data_def read_csv_def ex_fs_def ex_parser_def path_join_def Let_def
      ratings_names_def items_names_def users_names_def STR_NA_VALUES_def column_index_def
      astype_str_def str_strip_def isspace_def str_replace_disallowed_def allowed_char_def)

lemma ex_fs_read_item:
  "read_csv ex_fs (path_join ''data'' ''u.item'') items_names ['''', '' '', ''None''] =
     Inr [[Some ''1'', Some ''Toy Story (1995)'', Some '' 01-Jan-1995?'', None, Some ''http://x'',
           Some ''0'', Some ''0'', Some ''0'', Some ''1'', Some ''1'', Some ''1'', Some ''0'',
           Some ''0'', Some ''0'', Some ''0'', Some ''0'', Some ''0'', Some ''0'', Some ''0'',
           Some ''0'', Some ''0'', Some ''0'', Some ''0'', Some ''0''],
          [Some ''2'', Some ''GoldenEye (1995)'', Some ''tomorrow'', None, Some ''http://y'',
           Some ''0'', Some ''1'', Some ''1'', Some ''0'', Some ''0'', Some ''0'', Some ''0'',
           Some ''0'', Some ''0'', Some ''0'', Some ''0'', Some ''0'', Some ''0'', Some ''0'',
           Some ''0'', Some ''0'', Some ''1'', Some ''0'', Some ''0'']]"
  by (simp add: read_csv_def ex_fs_def path_join_def Let_def items_names_def STR_NA_VALUES_def)

lemma ex_fs_short_load:
  "load_raw_data ex_parser ex_fs_short ''data'' =
     Inr ([[Some ''1'', Some ''1'', Some ''5'', Some ''874965758'']],
          [[Raw (Some ''1''), Raw (Some ''Toy Story (1995)''), Parsed (Some (1995, 1, 1)), Raw None,
            Raw (Some ''http://x''), Raw (Some ''0''), Raw (Some ''0''), Raw (Some ''0''),
            Raw (Some ''1''), Raw (Some ''1''), Raw (Some ''1''), Raw (Some ''0''), Raw (Some ''0''),
            Raw (Some ''0''), Raw (Some ''0''), Raw (Some ''0''), Raw (Some ''0''), Raw (Some ''0''),
            Raw (Some ''0''), Raw (Some ''0''), Raw (Some ''0''), Raw (Some ''0''), Raw (Some ''0''),
            Raw (Some ''0'')],
           [Raw (Some ''2''), Raw (Some ''GoldenEye (1995)''), Parsed None, Raw None,
            Raw (Some ''http://y''), Raw (Some ''0''), Raw (Some ''1''), Raw (Some ''1''),
            Raw (Some ''0''), Raw (Some ''0''), Raw (Some ''0''), Raw (Some ''0''), Raw (Some ''0''),
            Raw (Some ''0''), Raw (Some ''0''), Raw (Some ''0''), Raw (Some ''0''), Raw (Some ''0''),
            Raw (Some ''0''), Raw (Some ''0''), Raw (Some ''0''), Raw (Some ''1''), Raw (Some ''0''),
            Raw (Some ''0'')]],
          [[Some ''1'', Some ''24'', Some ''M'', Some ''technician'', None]])"
  by (simp add: load_raw_data_def read_csv_def ex_fs_short_def ex_fs_def ex_parser_def path_join_def
      Let_def ratings_names_def items_names_def users_names_def STR_NA_VALUES_def column_index_def
      astype_str_def str_strip_def isspace_def str_replace_disallowed_def allowed_char_def)

section \<open>Properties\<close>

text \<open>
  C1.  For every ratings table the cleaner returns the table obtained by dropping
  full-row duplicates (first occurrence kept), then keeping exactly the rows with
  \<open>1 \<le> rating \<le> 5\<close>, then converting the timestamp column: an epoch-seconds column becomes
  the instants that many seconds after the epoch.  Every returned row has its rating in
  the range, no row occurs twice, and the returned rows are the in-range rows of the
  input, unchanged but for the timestamp.  The count of invalid ratings that is
  reported is taken on the deduplicated rows.
\<close>

theorem clean_ratings_data_contract:
  "rows (cleaned (clean_ratings_data ratings)) =
     map (\<lambda>r. r\<lparr>timestamp := to_datetime_s (timestamp_dtype ratings) (timestamp r)\<rparr>)
       (filter (\<lambda>r. 1 \<le> rating r \<and> rating r \<le> 5) (drop_duplicates (rows ratings)))
   \<and> (timestamp_dtype ratings = Int64 \<longrightarrow>
        map timestamp (rows (cleaned (clean_ratings_data ratings))) =
          map (\<lambda>r. timestamp r * 1000000000)
            (filter (\<lambda>r. 1 \<le> rating r \<and> rating r \<le> 5) (drop_duplicates (rows ratings))))
   \<and> (\<forall>r \<in> set (rows (cleaned (clean_ratings_data ratings))). 1 \<le> rating r \<and> rating r \<le> 5)
   \<and> timestamp_dtype (cleaned (clean_ratings_data ratings)) = Datetime64
   \<and> distinct (rows (cleaned (clean_ratings_data ratings)))
   \<and> distinct (drop_duplicates (rows ratings))
   \<and> set (drop_duplicates (rows ratings)) = set (rows ratings)
   \<and> set (rows (cleaned (clean_ratings_data ratings))) =
       (\<lambda>r. r\<lparr>timestamp := to_datetime_s (timestamp_dtype ratings) (timestamp r)\<rparr>) `
         {r \<in> set (rows ratings). 1 \<le> rating r \<and> rating r \<le> 5}
   \<and> printed_removed (clean_ratings_data ratings) =
        length (rows ratings) - length (drop_duplicates (rows ratings))
   \<and> printed_invalid (clean_ratings_data ratings) =
        length (filter (\<lambda>r. \<not> (1 \<le> rating r \<and> rating r \<le> 5)) (drop_duplicates (rows ratings)))"
proof -
  let ?conv = "\<lambda>r::rating_row. r\<lparr>timestamp := to_datetime_s (timestamp_dtype ratings) (timestamp r)\<rparr>"
  let ?ok = "\<lambda>r::rating_row. 1 \<le> rating r \<and> rating r \<le> 5"
  let ?d = "drop_duplicates (rows ratings)"
  note R = clean_ratings_rows [of ratings]
  have 2: "timestamp_dtype ratings = Int64 \<longrightarrow>
        map timestamp (rows (cleaned (clean_ratings_data ratings))) =
          map (\<lambda>r. timestamp r * 1000000000) (filter ?ok ?d)"
    unfolding R by (simp add: to_datetime_s_def comp_def)
  have 3: "\<forall>r \<in> set (rows (cleaned (clean_ratings_data ratings))). 1 \<le> rating r \<and> rating r \<le> 5"
    unfolding R by auto
  have 7: "set (rows (cleaned (clean_ratings_data ratings))) = ?conv ` {r \<in> set (rows ratings). ?ok r}"
    unfolding R by (simp add: drop_duplicates_set)
  have 9: "printed_removed (clean_ratings_data ratings) = length (rows ratings) - length ?d"
    by (simp add: clean_ratings_data_def Let_def)
  have "(\<lambda>r::rating_row. rating r < 1 \<or> 5 < rating r) = (\<lambda>r. \<not> (1 \<le> rating r \<and> rating r \<le> 5))"
    by auto
  then have 10: "printed_invalid (clean_ratings_data ratings) = length (filter (\<lambda>r. \<not> ?ok r) ?d)"
    by (simp add: clean_ratings_data_def Let_def)
  show ?thesis
    by (intro conjI R 2 3 7 9 10 clean_ratings_dtype clean_ratings_distinct
        drop_duplicates_distinct drop_duplicates_set)
qed

text \<open>
  A table with a repeated row and two out-of-range ratings (6 and 0): the repeated row is
  kept once, the two rows are dropped, and the timestamps 100 and 400 become instants.
\<close>

theorem clean_ratings_data_contract_witness:
  "rows (cleaned (clean_ratings_data
      \<lparr>timestamp_dtype = Int64, rows =
        [\<lparr>user_id = 1, item_id = 10, rating = 5, timestamp = 100\<rparr>,
         \<lparr>user_id = 1, item_id = 10, rating = 5, timestamp = 100\<rparr>,
         \<lparr>user_id = 2, item_id = 10, rating = 6, timestamp = 200\<rparr>,
         \<lparr>user_id = 3, item_id = 11, rating = 0, timestamp = 300\<rparr>,
         \<lparr>user_id = 3, item_id = 12, rating = 3, timestamp = 400\<rparr>]\<rparr>)) =
     [\<lparr>user_id = 1, item_id = 10, rating = 5, timestamp = 100000000000\<rparr>,
      \<lparr>user_id = 3, item_id = 12, rating = 3, timestamp = 400000000000\<rparr>]
   \<and> map timestamp (rows (cleaned (clean_ratings_data
      \<lparr>timestamp_dtype = Int64, rows =
        [\<lparr>user_id = 1, item_id = 10, rating = 5, timestamp = 100\<rparr>,
         \<lparr>user_id = 1, item_id = 10, rating = 5, timestamp = 100\<rparr>,
         \<lparr>user_id = 2, item_id = 10, rating = 6, timestamp = 200\<rparr>,
         \<lparr>user_id = 3, item_id = 11, rating = 0, timestamp = 300\<rparr>,
         \<lparr>user_id = 3, item_id = 12, rating = 3, timestamp = 400\<rparr>]\<rparr>))) =
     [100000000000, 400000000000]"
proof -
  let ?t = "\<lparr>timestamp_dtype = Int64, rows =
        [\<lparr>user_id = 1, item_id = 10, rating = 5, timestamp = 100\<rparr>,
         \<lparr>user_id = 1, item_id = 10, rating = 5, timestamp = 100\<rparr>,
         \<lparr>user_id = 2, item_id = 10, rating = 6, timestamp = 200\<rparr>,
         \<lparr>user_id = 3, item_id = 11, rating = 0, timestamp = 300\<rparr>,
         \<lparr>user_id = 3, item_id = 12, rating = 3, timestamp = 400\<rparr>]\<rparr>"
  have d: "timestamp_dtype ?t = Int64" by simp
  have a: "rows (cleaned (clean_ratings_data ?t)) =
     [\<lparr>user_id = 1, item_id = 10, rating = 5, timestamp = 100000000000\<rparr>,
      \<lparr>user_id = 3, item_id = 12, rating = 3, timestamp = 400000000000\<rparr>]"
    using clean_ratings_data_contract [of ?t, THEN conjunct1]
    by (simp add: drop_duplicates_def drop_duplicates_subset_def to_datetime_s_def)
  have b: "map timestamp (rows (cleaned (clean_ratings_data ?t))) = [100000000000, 400000000000]"
    using clean_ratings_data_contract [of ?t, THEN conjunct2, THEN conjunct1, rule_format, OF d]
    by (simp add: drop_duplicates_def drop_duplicates_subset_def)
  from a b show ?thesis by (intro conjI)
qed

text \<open>
  C4.  For every integer age the age group is decided by the left-closed, right-open
  buckets \<open><18\<close>, \<open>[18,25)\<close>, \<open>[25,35)\<close>, \<open>[35,50)\<close>, \<open>[50,65)\<close>, \<open>[65,\<infinity>)\<close>: each label is
  returned for exactly the ages of its bucket.  In particular 17 is "Under 18", 18 and
  24 are "18-24", 25 is "25-34", 49 is "35-49", 50 is "50-64" and 65 is "65+".
\<close>

theorem categorize_age_buckets:
  "(categorize_age a = ''Under 18'') = (a < 18)
   \<and> (categorize_age a = ''18-24'') = (18 \<le> a \<and> a < 25)
   \<and> (categorize_age a = ''25-34'') = (25 \<le> a \<and> a < 35)
   \<and> (categorize_age a = ''35-49'') = (35 \<le> a \<and> a < 50)
   \<and> (categorize_age a = ''50-64'') = (50 \<le> a \<and> a < 65)
   \<and> (categorize_age a = ''65+'') = (65 \<le> a)
   \<and> categorize_age 17 = ''Under 18''
   \<and> categorize_age 18 = ''18-24''
   \<and> categorize_age 24 = ''18-24''
   \<and> categorize_age 25 = ''25-34''
   \<and> categorize_age 49 = ''35-49''
   \<and> categorize_age 50 = ''50-64''
   \<and> categorize_age 65 = ''65+''"
  by (simp add: categorize_age_def)

text \<open>
  C5.  For every item row the derived genres string is built from the declared genre
  names without "unknown", in declaration order: the names whose flag equals 1 are
  joined with a comma followed by a space, and when no flag is 1 the value is the string
  "Unknown" (which no joined list of names equals).  A row with all flags 0 gives
  "Unknown"; a row with only the Action flag at 1 gives "Action".
\<close>

theorem get_genres_derivation:
  "get_genres row =
     (if filter (\<lambda>g. genre_flag row g = 1)
           [''Action'', ''Adventure'', ''Animation'', ''Children's'', ''Comedy'', ''Crime'',
            ''Documentary'', ''Drama'', ''Fantasy'', ''Film-Noir'', ''Horror'', ''Musical'',
            ''Mystery'', ''Romance'', ''Sci-Fi'', ''Thriller'', ''War'', ''Western''] = []
      then ''Unknown''
      else str_join '', '' (filter (\<lambda>g. genre_flag row g = 1)
           [''Action'', ''Adventure'', ''Animation'', ''Children's'', ''Comedy'', ''Crime'',
            ''Documentary'', ''Drama'', ''Fantasy'', ''Film-Noir'', ''Horror'', ''Musical'',
            ''Mystery'', ''Romance'', ''Sci-Fi'', ''Thriller'', ''War'', ''Western'']))
   \<and> ((\<forall>g\<in>set genre_cols. genre_flag row g = 0) \<longrightarrow> get_genres row = ''Unknown'')
   \<and> (genre_flag row ''Action'' = 1 \<and> (\<forall>g\<in>set genre_cols. g \<noteq> ''Action'' \<longrightarrow> genre_flag row g = 0)
        \<longrightarrow> get_genres row = ''Action'')
   \<and> (get_genres row = ''Unknown'') =
       (filter (\<lambda>g. genre_flag row g = 1)
           [''Action'', ''Adventure'', ''Animation'', ''Children's'', ''Comedy'', ''Crime'',
            ''Documentary'', ''Drama'', ''Fantasy'', ''Film-Noir'', ''Horror'', ''Musical'',
            ''Mystery'', ''Romance'', ''Sci-Fi'', ''Thriller'', ''War'', ''Western''] = [])"
  using get_genres_filter [of row] get_genres_all_zero [of row] get_genres_only_Action [of row]
    get_genres_Unknown_iff [of row]
  unfolding tl_genre_cols by blast

text \<open>
  Three rows: all flags 0; only Action at 1; Action and Sci-Fi at 1 together with the
  "unknown" flag, which is skipped.
\<close>

theorem get_genres_derivation_witness:
  "get_genres \<lparr>i_item_id = 1, movie_title = Some ''A'', release_date = None,
       video_release_date = None, IMDb_URL = None, genre_flag = (\<lambda>g. 0),
       release_year = None, genres = None\<rparr> = ''Unknown''
   \<and> get_genres \<lparr>i_item_id = 2, movie_title = Some ''B'', release_date = None,
       video_release_date = None, IMDb_URL = None,
       genre_flag = (\<lambda>g. if g = ''Action'' then 1 else 0),
       release_year = None, genres = None\<rparr> = ''Action''
   \<and> get_genres \<lparr>i_item_id = 3, movie_title = Some ''C'', release_date = None,
       video_release_date = None, IMDb_URL = None,
       genre_flag = (\<lambda>g. if g \<in> set [''unknown'', ''Sci-Fi'', ''Action''] then 1 else 0),
       release_year = None, genres = None\<rparr> = ''Action, Sci-Fi''"
proof -
  let ?r1 = "\<lparr>i_item_id = 1, movie_title = Some ''A'', release_date = None,
       video_release_date = None, IMDb_URL = None, genre_flag = (\<lambda>g. 0::int),
       release_year = None, genres = None\<rparr>"
  let ?r2 = "\<lparr>i_item_id = 2, movie_title = Some ''B'', release_date = None,
       video_release_date = None, IMDb_URL = None,
       genre_flag = (\<lambda>g. if g = ''Action'' then 1 else 0::int),
       release_year = None, genres = None\<rparr>"
  let ?r3 = "\<lparr>i_item_id = 3, movie_title = Some ''C'', release_date = None,
       video_release_date = None, IMDb_URL = None,
       genre_flag = (\<lambda>g. if g \<in> set [''unknown'', ''Sci-Fi'', ''Action''] then 1 else 0::int),
       release_year = None, genres = None\<rparr>"
  have a: "get_genres ?r1 = ''Unknown''"
    using get_genres_derivation [of ?r1, THEN conjunct2, THEN conjunct1] by simp
  have b: "get_genres ?r2 = ''Action''"
    using get_genres_derivation [of ?r2, THEN conjunct2, THEN conjunct2, THEN conjunct1] by simp
  have c: "get_genres ?r3 = ''Action, Sci-Fi''"
    using get_genres_derivation [of ?r3, THEN conjunct1] by simp
  from a b c show ?thesis by (intro conjI)
qed

text \<open>
  C7.  Each cleaner is idempotent: cleaning the table that a cleaner returned gives that
  table again, for the ratings, the items and the users cleaner.
\<close>

theorem cleaners_idempotent:
  "cleaned (clean_ratings_data (cleaned (clean_ratings_data ratings))) =
     cleaned (clean_ratings_data ratings)
   \<and> clean_items_data (clean_items_data items) = clean_items_data items
   \<and> clean_users_data (clean_users_data users) = clean_users_data users"
  by (intro conjI clean_ratings_idem clean_items_idem clean_users_idem)

text \<open>The example tables: a second pass returns the cleaned ratings and users tables.\<close>

theorem cleaners_idempotent_witness:
  "cleaned (clean_ratings_data (cleaned (clean_ratings_data ex_ratings))) =
     \<lparr>timestamp_dtype = Datetime64, rows =
       [\<lparr>user_id = 1, item_id = 1, rating = 1, timestamp = 10000000000\<rparr>,
        \<lparr>user_id = 1, item_id = 1, rating = 4, timestamp = 20000000000\<rparr>,
        \<lparr>user_id = 2, item_id = 3, rating = 5, timestamp = 20000000000\<rparr>]\<rparr>
   \<and> clean_users_data (clean_users_data ex_users) =
     [\<lparr>u_user_id = 1, age = 24, gender = Some ''M'', occupation = Some ''technician'',
       zip_code = ''85711'', age_group = Some ''18-24''\<rparr>,
      \<lparr>u_user_id = 5, age = 33, gender = Some ''F'', occupation = None,
       zip_code = ''15213'', age_group = Some ''25-34''\<rparr>]"
  using cleaners_idempotent [of ex_ratings ex_items ex_users]
  by (simp add: ex_clean_ratings ex_clean_users)

text \<open>
  C2.  When the item ids of the items table are pairwise distinct and the user ids of the
  users table are pairwise distinct, the integrated table has exactly as many rows as
  the ratings table: its rows are the rating rows, in order, each extended once.  A
  rating row whose item id (user id) has no match gets nulls in the columns brought in
  from the items (users) table; a matched row gets the columns of its match.
\<close>

theorem integrate_data_left_join:
  assumes "distinct (map i_item_id items)" and "distinct (map u_user_id users)"
  shows "length (integrate_data ratings items users) = length (rows ratings)
    \<and> map (\<lambda>f. \<lparr>user_id = f_user_id f, item_id = f_item_id f, rating = f_rating f,
                  timestamp = f_timestamp f\<rparr>) (integrate_data ratings items users) = rows ratings
    \<and> (\<forall>k < length (rows ratings).
          item_id (rows ratings ! k) \<notin> i_item_id ` set items \<longrightarrow>
            f_movie_title (integrate_data ratings items users ! k) = None
            \<and> f_release_year (integrate_data ratings items users ! k) = None
            \<and> f_genres (integrate_data ratings items users ! k) = None)
    \<and> (\<forall>k < length (rows ratings).
          user_id (rows ratings ! k) \<notin> u_user_id ` set users \<longrightarrow>
            f_age (integrate_data ratings items users ! k) = None
            \<and> f_gender (integrate_data ratings items users ! k) = None
            \<and> f_occupation (integrate_data ratings items users ! k) = None
            \<and> f_age_group (integrate_data ratings items users ! k) = None)
    \<and> (\<forall>k < length (rows ratings). \<forall>it \<in> set items.
          i_item_id it = item_id (rows ratings ! k) \<longrightarrow>
            f_movie_title (integrate_data ratings items users ! k) = movie_title it
            \<and> f_release_year (integrate_data ratings items users ! k) = release_year it
            \<and> f_genres (integrate_data ratings items users ! k) = genres it)
    \<and> (\<forall>k < length (rows ratings). \<forall>u \<in> set users.
          u_user_id u = user_id (rows ratings ! k) \<longrightarrow>
            f_age (integrate_data ratings items users ! k) = Some (user_row.age u)
            \<and> f_gender (integrate_data ratings items users ! k) = gender u
            \<and> f_occupation (integrate_data ratings items users ! k) = occupation u
            \<and> f_age_group (integrate_data ratings items users ! k) = age_group u)"
proof -
  note E = integrate_data_distinct [OF assms, of ratings]
  have 1: "length (integrate_data ratings items users) = length (rows ratings)"
    unfolding E by simp
  have eta: "\<lparr>user_id = user_id r, item_id = item_id r, rating = rating r,
               timestamp = timestamp r\<rparr> = r" for r :: rating_row
    by (cases r) simp
  have 2: "map (\<lambda>f. \<lparr>user_id = f_user_id f, item_id = f_item_id f, rating = f_rating f,
                  timestamp = f_timestamp f\<rparr>) (integrate_data ratings items users) = rows ratings"
    unfolding E by (simp add: comp_def eta)
  have 3: "\<forall>k < length (rows ratings).
          item_id (rows ratings ! k) \<notin> i_item_id ` set items \<longrightarrow>
            f_movie_title (integrate_data ratings items users ! k) = None
            \<and> f_release_year (integrate_data ratings items users ! k) = None
            \<and> f_genres (integrate_data ratings items users ! k) = None"
    unfolding E by (simp add: find_key_None)
  have 4: "\<forall>k < length (rows ratings).
          user_id (rows ratings ! k) \<notin> u_user_id ` set users \<longrightarrow>
            f_age (integrate_data ratings items users ! k) = None
            \<and> f_gender (integrate_data ratings items users ! k) = None
            \<and> f_occupation (integrate_data ratings items users ! k) = None
            \<and> f_age_group (integrate_data ratings items users ! k) = None"
    unfolding E by (simp add: find_key_None)
  have 5: "\<forall>k < length (rows ratings). \<forall>it \<in> set items.
          i_item_id it = item_id (rows ratings ! k) \<longrightarrow>
            f_movie_title (integrate_data ratings items users ! k) = movie_title it
            \<and> f_release_year (integrate_data ratings items users ! k) = release_year it
            \<and> f_genres (integrate_data ratings items users ! k) = genres it"
    unfolding E by (simp add: find_key_Some [OF assms(1)])
  have 6: "\<forall>k < length (rows ratings). \<forall>u \<in> set users.
          u_user_id u = user_id (rows ratings ! k) \<longrightarrow>
            f_age (integrate_data ratings items users ! k) = Some (user_row.age u)
            \<and> f_gender (integrate_data ratings items users ! k) = gender u
            \<and> f_occupation (integrate_data ratings items users ! k) = occupation u
            \<and> f_age_group (integrate_data ratings items users ! k) = age_group u"
    unfolding E by (simp add: find_key_Some [OF assms(2)])
  show ?thesis by (intro conjI 1 2 3 4 5 6)
qed

text \<open>
  The example tables, cleaned: the third rating row (user 2, item 3) has no match in either
  table and gets nulls; the first (user 1, item 1) gets the columns of its matches.
\<close>

theorem integrate_data_left_join_witness:
  "length (integrate_data (cleaned (clean_ratings_data ex_ratings)) (clean_items_data ex_items)
             (clean_users_data ex_users)) = 3
   \<and> f_movie_title (integrate_data (cleaned (clean_ratings_data ex_ratings)) (clean_items_data ex_items)
             (clean_users_data ex_users) ! 2) = None
   \<and> f_age (integrate_data (cleaned (clean_ratings_data ex_ratings)) (clean_items_data ex_items)
             (clean_users_data ex_users) ! 2) = None
   \<and> f_movie_title (integrate_data (cleaned (clean_ratings_data ex_ratings)) (clean_items_data ex_items)
             (clean_users_data ex_users) ! 0) = Some ''Toy Story (1995)''
   \<and> f_age_group (integrate_data (cleaned (clean_ratings_data ex_ratings)) (clean_items_data ex_items)
             (clean_users_data ex_users) ! 0) = Some ''18-24''"
proof -
  let ?R = "cleaned (clean_ratings_data ex_ratings)"
  let ?I = "clean_items_data ex_items"
  let ?U = "clean_users_data ex_users"
  have di: "distinct (map i_item_id ?I)" by (rule clean_items_keys)
  have du: "distinct (map u_user_id ?U)" by (rule clean_users_keys)
  note T = integrate_data_left_join [OF di du, of ?R]
  have len: "length ?I = 2"
    using arg_cong [OF ex_clean_items, of length] by simp
  have ids: "map i_item_id ?I = [1, 2]"
    using arg_cong [OF ex_clean_items, of "map fst"] by (simp add: comp_def)
  have I0: "i_item_id (?I ! 0) = 1" "movie_title (?I ! 0) = Some ''Toy Story (1995)''"
    using arg_cong [OF ex_clean_items, of "\<lambda>xs. xs ! 0"] len by simp_all
  have I0_in: "?I ! 0 \<in> set ?I" using len by simp
  have a: "length (integrate_data ?R ?I ?U) = 3"
    using T [THEN conjunct1] by (simp add: ex_clean_ratings)
  have "item_id (rows ?R ! 2) \<notin> i_item_id ` set ?I"
    using arg_cong [OF ids, of set] by (simp add: ex_clean_ratings)
  then have b: "f_movie_title (integrate_data ?R ?I ?U ! 2) = None"
    using T [THEN conjunct2, THEN conjunct2, THEN conjunct1, rule_format, of 2]
    by (simp add: ex_clean_ratings)
  have "user_id (rows ?R ! 2) \<notin> u_user_id ` set ?U"
    by (simp add: ex_clean_ratings ex_clean_users)
  then have c: "f_age (integrate_data ?R ?I ?U ! 2) = None"
    using T [THEN conjunct2, THEN conjunct2, THEN conjunct2, THEN conjunct1, rule_format, of 2]
    by (simp add: ex_clean_ratings)
  have d: "f_movie_title (integrate_data ?R ?I ?U ! 0) = Some ''Toy Story (1995)''"
    using T [THEN conjunct2, THEN conjunct2, THEN conjunct2, THEN conjunct2, THEN conjunct1,
        rule_format, of 0 "?I ! 0"] I0 I0_in
    by (simp add: ex_clean_ratings)
  have e: "f_age_group (integrate_data ?R ?I ?U ! 0) = Some ''18-24''"
    using T [THEN conjunct2, THEN conjunct2, THEN conjunct2, THEN conjunct2, THEN conjunct2,
        rule_format, of 0 "hd ?U"]
    by (simp add: ex_clean_ratings ex_clean_users)
  from a b c d e show ?thesis by (intro conjI)
qed

text \<open>
  C3, as stated, fails: in the example the ratings cleaner keeps both ratings of item 1
  by user 1 (the rows differ in rating and timestamp), the integrated table has both, the
  triple (1, 1, 1) is in the triple list, and the cell (1, 1) of the matrix is 5/2.
\<close>

theorem matrix_cell_counterexample:
  "prepare_svd_data ex_final_data =
     Inr (\<lparr>index = [1, 2], columns = [1, 3], cells = [[5 / 2, 0], [0, 5]]\<rparr>,
          [(1, 1, 1), (1, 1, 4), (2, 3, 5)])
   \<and> (1 :: int, 1 :: int, 1 :: int) \<in> set [(1, 1, 1), (1, 1, 4), (2, 3, 5)]
   \<and> cell \<lparr>index = [1, 2], columns = [1, 3], cells = [[5 / 2, 0], [0, 5 :: rat]]\<rparr> 1 1 = Some (5 / 2)
   \<and> cell \<lparr>index = [1, 2], columns = [1, 3], cells = [[5 / 2, 0], [0, 5 :: rat]]\<rparr> 1 1 \<noteq> Some (of_int 1)"
  by (simp add: ex_prepare cell_def)

text \<open>
  C3, amended.  For every non-empty integrated table the matrix builder returns a matrix
  and the triple list, and for every user \<open>u\<close> and item \<open>i\<close> in the matrix labels: the cell
  \<open>(u, i)\<close> is 0 when the list has no triple for \<open>(u, i)\<close>, and it is \<open>r\<close> when the list has a
  triple \<open>(u, i, r)\<close> and every triple for \<open>(u, i)\<close> carries that rating \<open>r\<close>.
\<close>

theorem matrix_cell_rating:
  "(fd \<noteq> [] \<longrightarrow> (\<exists>m svd. prepare_svd_data fd = Inr (m, svd)))
   \<and> (\<forall>m svd. prepare_svd_data fd = Inr (m, svd) \<longrightarrow>
        svd = map (\<lambda>x. (f_user_id x, f_item_id x, f_rating x)) fd
        \<and> (\<forall>u\<in>set (index m). \<forall>i\<in>set (columns m).
             ((\<forall>r. (u, i, r) \<notin> set svd) \<longrightarrow> cell m u i = Some 0)
           \<and> (\<forall>r. (u, i, r) \<in> set svd \<and> (\<forall>r'. (u, i, r') \<in> set svd \<longrightarrow> r' = r)
                  \<longrightarrow> cell m u i = Some (of_int r))))"
proof (intro conjI allI impI ballI)
  assume "fd \<noteq> []"
  then show "\<exists>m svd. prepare_svd_data fd = Inr (m, svd)"
    by (simp add: prepare_svd_data_nonempty)
next
  fix m svd
  assume "prepare_svd_data fd = Inr (m, svd)"
  then show "svd = map (\<lambda>x. (f_user_id x, f_item_id x, f_rating x)) fd"
    by (simp add: prepare_svd_data_Inr)
next
  fix m svd u i
  assume p: "prepare_svd_data fd = Inr (m, svd)"
    and u: "u \<in> set (index m)" and i: "i \<in> set (columns m)"
    and none: "\<forall>r. (u, i, r) \<notin> set svd"
  let ?vs = "map f_rating (filter (\<lambda>x. f_user_id x = u \<and> f_item_id x = i) fd)"
  from p have m: "m = fillna 0 (pivot_table fd)"
    and svd: "svd = map (\<lambda>x. (f_user_id x, f_item_id x, f_rating x)) fd"
    by (simp_all add: prepare_svd_data_Inr)
  from u i m have ui: "u \<in> set (index (pivot_table fd))" "i \<in> set (columns (pivot_table fd))"
    by (simp_all add: fillna_def)
  from none have "\<forall>r. r \<notin> set ?vs"
    unfolding svd triples_of_pair .
  then have "?vs = []" by (cases ?vs) auto
  with cell_pivot [OF ui] show "cell m u i = Some 0"
    by (simp add: m Let_def)
next
  fix m svd u i r
  assume p: "prepare_svd_data fd = Inr (m, svd)"
    and u: "u \<in> set (index m)" and i: "i \<in> set (columns m)"
    and one: "(u, i, r) \<in> set svd \<and> (\<forall>r'. (u, i, r') \<in> set svd \<longrightarrow> r' = r)"
  let ?vs = "map f_rating (filter (\<lambda>x. f_user_id x = u \<and> f_item_id x = i) fd)"
  from p have m: "m = fillna 0 (pivot_table fd)"
    and svd: "svd = map (\<lambda>x. (f_user_id x, f_item_id x, f_rating x)) fd"
    by (simp_all add: prepare_svd_data_Inr)
  from u i m have ui: "u \<in> set (index (pivot_table fd))" "i \<in> set (columns (pivot_table fd))"
    by (simp_all add: fillna_def)
  from one have mem: "r \<in> set ?vs" and uniq: "\<forall>r'. r' \<in> set ?vs \<longrightarrow> r' = r"
    unfolding svd triples_of_pair by simp_all
  from mem have "0 < length ?vs" by (rule length_pos_if_in_set)
  then have ne: "?vs \<noteq> []" by (simp del: length_map)
  from uniq have "\<forall>v\<in>set ?vs. v = r" by blast
  with ne have "mean ?vs = of_int r" by (rule mean_const)
  with ne cell_pivot [OF ui] show "cell m u i = Some (of_int r)"
    by (simp add: m Let_def)
qed


theorem matrix_cell_rating_witness:
  "cell \<lparr>index = [1, 2], columns = [1, 3], cells = [[5 / 2, 0], [0, 5 :: rat]]\<rparr> 2 3 = Some 5
   \<and> cell \<lparr>index = [1, 2], columns = [1, 3], cells = [[5 / 2, 0], [0, 5 :: rat]]\<rparr> 1 3 = Some 0"
proof -
  note T = matrix_cell_rating [of ex_final_data,
      THEN conjunct2, rule_format, OF ex_prepare, THEN conjunct2, rule_format]
  have a: "cell \<lparr>index = [1, 2], columns = [1, 3], cells = [[5 / 2, 0], [0, 5 :: rat]]\<rparr> 2 3 = Some 5"
    using T [of 2 3, THEN conjunct2, rule_format, of 5] by simp
  have b: "cell \<lparr>index = [1, 2], columns = [1, 3], cells = [[5 / 2, 0], [0, 5 :: rat]]\<rparr> 1 3 = Some 0"
    using T [of 1 3, THEN conjunct1] by simp
  from a b show ?thesis by (intro conjI)
qed

text \<open>
  C10.  Whenever the matrix builder returns (as it does for every non-empty integrated
  table), the cell of a user and an item that have one or more rows in the table is the
  arithmetic mean of the ratings of those rows: their sum divided by their number.
\<close>

theorem pivot_mean_aggregation:
  "(fd \<noteq> [] \<longrightarrow> (\<exists>m svd. prepare_svd_data fd = Inr (m, svd)))
   \<and> (\<forall>m svd. prepare_svd_data fd = Inr (m, svd) \<longrightarrow>
        (\<forall>u\<in>set (index m). \<forall>i\<in>set (columns m).
           filter (\<lambda>x. f_user_id x = u \<and> f_item_id x = i) fd \<noteq> [] \<longrightarrow>
           cell m u i =
             Some (of_int (sum_list (map f_rating (filter (\<lambda>x. f_user_id x = u \<and> f_item_id x = i) fd)))
                   / of_nat (length (filter (\<lambda>x. f_user_id x = u \<and> f_item_id x = i) fd)))))"
proof (intro conjI allI impI ballI)
  assume "fd \<noteq> []"
  then show "\<exists>m svd. prepare_svd_data fd = Inr (m, svd)"
    by (simp add: prepare_svd_data_nonempty)
next
  fix m svd u i
  assume p: "prepare_svd_data fd = Inr (m, svd)"
    and u: "u \<in> set (index m)" and i: "i \<in> set (columns m)"
    and some: "filter (\<lambda>x. f_user_id x = u \<and> f_item_id x = i) fd \<noteq> []"
  from p have m: "m = fillna 0 (pivot_table fd)"
    by (simp add: prepare_svd_data_Inr)
  from u i m have ui: "u \<in> set (index (pivot_table fd))" "i \<in> set (columns (pivot_table fd))"
    by (simp_all add: fillna_def)
  from some cell_pivot [OF ui]
  show "cell m u i =
     Some (of_int (sum_list (map f_rating (filter (\<lambda>x. f_user_id x = u \<and> f_item_id x = i) fd)))
           / of_nat (length (filter (\<lambda>x. f_user_id x = u \<and> f_item_id x = i) fd)))"
    by (simp add: m Let_def mean_def)
qed

text \<open>
  In the example the two rows of user 1 and item 1 carry the ratings 1 and 4: the builder
  returns, and the cell is 5/2, neither the last rating nor an error.
\<close>

theorem pivot_mean_aggregation_witness:
  "cell \<lparr>index = [1, 2], columns = [1, 3], cells = [[5 / 2, 0], [0, 5 :: rat]]\<rparr> 1 1 = Some ((1 + 4) / 2)"
  using pivot_mean_aggregation [of ex_final_data, THEN conjunct2, rule_format, OF ex_prepare, of 1 1]
  by (simp add: ex_integrate)

text \<open>
  C6.  For every non-empty triple list the sparsity is
  \<open>(1 - count / (distinct users * distinct items)) * 100\<close>; for 100000 triples, 943 users
  and 1682 items it is 74306300/793063, which lies between 93.695 and 93.705.  (On the
  empty list the division is by zero and raises.)
\<close>

theorem sparsity_formula:
  "(svd \<noteq> [] \<longrightarrow>
      sparsity svd =
        Inr ((1 - of_nat (length svd) /
                (of_nat (card ((\<lambda>(u, i, r). u) ` set svd)) * of_nat (card ((\<lambda>(u, i, r). i) ` set svd))))
             * 100))
   \<and> sparsity [] = Inl ZeroDivisionError
   \<and> sparsity_percent 100000 (943 * 1682) = Inr (74306300 / 793063)
   \<and> (93695 / 1000 :: rat) < 74306300 / 793063
   \<and> (74306300 / 793063 :: rat) < 93705 / 1000"
proof (intro conjI impI)
  assume "svd \<noteq> []"
  then show "sparsity svd =
        Inr ((1 - of_nat (length svd) /
                (of_nat (card ((\<lambda>(u, i, r). u) ` set svd)) * of_nat (card ((\<lambda>(u, i, r). i) ` set svd))))
             * 100)"
    by (simp add: sparsity_nonempty nunique_def length_remdups_card_conv)
next
  show "sparsity [] = Inl ZeroDivisionError"
    by (simp add: sparsity_def sparsity_percent_def nunique_def)
next
  show "sparsity_percent 100000 (943 * 1682) = Inr (74306300 / 793063)"
    by (simp add: sparsity_percent_def)
qed simp_all

text \<open>Three triples, two users, two items: the sparsity is 25 percent.\<close>

theorem sparsity_formula_witness:
  "sparsity [(1, 1, 1), (1, 1, 4), (2, 3, 5)] = Inr 25"
  using sparsity_formula [of "[(1, 1, 1), (1, 1, 4), (2, 3, 5)]", THEN conjunct1]
  by simp

text \<open>
  C8.  The release-date column of the loaded items table is the date parser applied to
  the column of strings in which every value of the field (a null as the text "nan") has
  lost all characters other than ASCII digits, ASCII letters and the hyphen; the
  whitespace trim before it removes nothing more.  The parser is the library's, called
  with day-first ordering and with unparseable values coerced to null: it gives a date or
  a null for each string, so the load fails exactly when reading one of the three files
  fails, whatever the date field holds.  The other columns are as read.
\<close>

theorem release_date_loading:
  assumes "\<And>xs. length (to_datetime xs) = length xs"
  shows "isl (load_raw_data to_datetime fs data_dir) =
           (isl (read_csv fs (path_join data_dir ''u.data'') ratings_names [])
            \<or> isl (read_csv fs (path_join data_dir ''u.item'') items_names ['''', '' '', ''None''])
            \<or> isl (read_csv fs (path_join data_dir ''u.user'') users_names []))
    \<and> (\<forall>ratings items users raw.
          load_raw_data to_datetime fs data_dir = Inr (ratings, items, users) \<longrightarrow>
          read_csv fs (path_join data_dir ''u.item'') items_names ['''', '' '', ''None''] = Inr raw \<longrightarrow>
            length items = length raw
            \<and> map (\<lambda>row. row ! 2) items =
                map Parsed (to_datetime (map (\<lambda>row. filter allowed_char (astype_str (row ! 2))) raw))
            \<and> (\<forall>s\<in>set (map (\<lambda>row. filter allowed_char (astype_str (row ! 2))) raw).
                  \<forall>c\<in>set s. allowed_char c)
            \<and> (\<forall>j<length raw. \<forall>c<24. c \<noteq> 2 \<longrightarrow> items ! j ! c = Raw (raw ! j ! c)))"
proof -
  have fails: "isl (load_raw_data to_datetime fs data_dir) =
           (isl (read_csv fs (path_join data_dir ''u.data'') ratings_names [])
            \<or> isl (read_csv fs (path_join data_dir ''u.item'') items_names ['''', '' '', ''None''])
            \<or> isl (read_csv fs (path_join data_dir ''u.user'') users_names []))"
    by (rule load_raw_data_isl)
  have column: "length items = length raw
            \<and> map (\<lambda>row. row ! 2) items =
                map Parsed (to_datetime (map (\<lambda>row. filter allowed_char (astype_str (row ! 2))) raw))
            \<and> (\<forall>s\<in>set (map (\<lambda>row. filter allowed_char (astype_str (row ! 2))) raw).
                  \<forall>c\<in>set s. allowed_char c)
            \<and> (\<forall>j<length raw. \<forall>c<24. c \<noteq> 2 \<longrightarrow> items ! j ! c = Raw (raw ! j ! c))"
    if L: "load_raw_data to_datetime fs data_dir = Inr (ratings, items, users)"
      and R: "read_csv fs (path_join data_dir ''u.item'') items_names ['''', '' '', ''None''] = Inr raw"
    for ratings items users raw
  proof -
    let ?s = "map (\<lambda>row. filter allowed_char (astype_str (row ! 2))) raw"
    from load_raw_data_Inr [OF L] R
    have items: "items = map2 (\<lambda>row d. (map Raw row)[2 := Parsed d]) raw (to_datetime ?s)"
      by auto
    have len: "length (to_datetime ?s) = length raw"
      by (simp add: assms)
    have rowlen: "length (raw ! j) = 24" if "j < length raw" for j
      using read_csv_row_length [OF R, of "raw ! j"] that by (simp add: names_lengths)
    have a: "length items = length raw"
      by (simp add: items len)
    have b: "map (\<lambda>row. row ! 2) items = map Parsed (to_datetime ?s)"
      by (rule nth_equalityI) (simp_all add: items len rowlen)
    have c: "\<forall>s\<in>set ?s. \<forall>c\<in>set s. allowed_char c"
      by auto
    have d: "\<forall>j<length raw. \<forall>c<24. c \<noteq> 2 \<longrightarrow> items ! j ! c = Raw (raw ! j ! c)"
      by (simp add: items len rowlen)
    from a b c d show ?thesis by (intro conjI)
  qed
  from fails column show ?thesis by blast
qed


text \<open>
  In the example the first date, with a leading space and a question mark, is parsed; the
  second, which the parser does not know, is null; the load succeeds.
\<close>

theorem release_date_loading_witness:
  "\<not> isl (load_raw_data ex_parser ex_fs ''data'')
   \<and> map (\<lambda>row. row ! 2) (fst (snd (projr (load_raw_data ex_parser ex_fs ''data'')))) =
       [Parsed (Some (1995, 1, 1)), Parsed None]"
proof -
  have P: "length (ex_parser xs) = length xs" for xs
    by (simp add: ex_parser_def)
  note T = release_date_loading [of ex_parser ex_fs "''data''", OF P]
  have a: "\<not> isl (load_raw_data ex_parser ex_fs ''data'')"
    using T [THEN conjunct1]
    by (simp add: read_csv_def ex_fs_def path_join_def Let_def ratings_names_def items_names_def
        users_names_def)
  have b: "map (\<lambda>row. row ! 2) (fst (snd (projr (load_raw_data ex_parser ex_fs ''data'')))) =
       [Parsed (Some (1995, 1, 1)), Parsed None]"
    using T [THEN conjunct2, rule_format, OF ex_fs_load ex_fs_read_item, THEN conjunct2, THEN conjunct1]
    by (simp add: ex_fs_load ex_parser_def astype_str_def allowed_char_def)
  from a b show ?thesis by (intro conjI)
qed


text \<open>
  C9, as stated, fails: with a \<^verbatim>\<open>u.user\<close> whose records have four fields against the five
  declared names the load succeeds, and the fifth column is null.
\<close>

theorem load_raw_data_schema_counterexample:
  "ex_fs_short (path_join ''data'' ''u.user'') = Some [[''1'', ''24'', ''M'', ''technician'']]
   \<and> length [''1'', ''24'', ''M'', ''technician''] = 4
   \<and> length users_names = 5
   \<and> \<not> isl (load_raw_data ex_parser ex_fs_short ''data'')
   \<and> snd (snd (projr (load_raw_data ex_parser ex_fs_short ''data''))) =
       [[Some ''1'', Some ''24'', Some ''M'', Some ''technician'', None]]"
  by (simp add: ex_fs_short_load) (simp add: ex_fs_short_def path_join_def users_names_def)


text \<open>
  C9, amended.  The load fails when one of the three files is absent (with the file-not-found
  error for \<^verbatim>\<open>u.data\<close> when that file is absent), and whenever the load fails the run
  writes no file.  When the three files are present and no record has more fields than
  the declared names, the load succeeds: the records of \<^verbatim>\<open>u.data\<close> and \<^verbatim>\<open>u.user\<close> are read
  with missing trailing fields as nulls, and every loaded item row has 24 cells.
\<close>

theorem load_raw_data_failure:
  "((fs (path_join data_dir ''u.data'') = None \<or> fs (path_join data_dir ''u.item'') = None
      \<or> fs (path_join data_dir ''u.user'') = None)
     \<longrightarrow> isl (load_raw_data to_datetime fs data_dir))
   \<and> (fs (path_join data_dir ''u.data'') = None \<longrightarrow>
        load_raw_data to_datetime fs data_dir = Inl (FileNotFoundError (path_join data_dir ''u.data'')))
   \<and> (\<forall>ld li lu.
        fs (path_join data_dir ''u.data'') = Some ld \<and> fs (path_join data_dir ''u.item'') = Some li
        \<and> fs (path_join data_dir ''u.user'') = Some lu
        \<and> (\<forall>l\<in>set ld. length l \<le> 4) \<and> (\<forall>l\<in>set li. length l \<le> 24) \<and> (\<forall>l\<in>set lu. length l \<le> 5)
        \<longrightarrow> (\<exists>ratings items users.
               load_raw_data to_datetime fs data_dir = Inr (ratings, items, users)
               \<and> ratings = map (\<lambda>l. map (\<lambda>f. if f \<in> set STR_NA_VALUES then None else Some f) l
                                     @ replicate (4 - length l) None) ld
               \<and> users = map (\<lambda>l. map (\<lambda>f. if f \<in> set STR_NA_VALUES then None else Some f) l
                                   @ replicate (5 - length l) None) lu
               \<and> (\<forall>r\<in>set items. length r = 24)))
   \<and> (isl (load_raw_data to_datetime fs data_dir) \<longrightarrow> snd (main to_datetime typed fs data_dir) = [])"
proof -
  have 1: "(fs (path_join data_dir ''u.data'') = None \<or> fs (path_join data_dir ''u.item'') = None
      \<or> fs (path_join data_dir ''u.user'') = None)
     \<longrightarrow> isl (load_raw_data to_datetime fs data_dir)"
    by (auto simp: load_raw_data_isl read_csv_absent)
  have 2: "fs (path_join data_dir ''u.data'') = None \<longrightarrow>
        load_raw_data to_datetime fs data_dir = Inl (FileNotFoundError (path_join data_dir ''u.data''))"
    by (simp add: load_raw_data_def read_csv_absent)
  have 3: "\<exists>ratings items users.
               load_raw_data to_datetime fs data_dir = Inr (ratings, items, users)
               \<and> ratings = map (\<lambda>l. map (\<lambda>f. if f \<in> set STR_NA_VALUES then None else Some f) l
                                     @ replicate (4 - length l) None) ld
               \<and> users = map (\<lambda>l. map (\<lambda>f. if f \<in> set STR_NA_VALUES then None else Some f) l
                                   @ replicate (5 - length l) None) lu
               \<and> (\<forall>r\<in>set items. length r = 24)"
    if h: "fs (path_join data_dir ''u.data'') = Some ld \<and> fs (path_join data_dir ''u.item'') = Some li
        \<and> fs (path_join data_dir ''u.user'') = Some lu
        \<and> (\<forall>l\<in>set ld. length l \<le> 4) \<and> (\<forall>l\<in>set li. length l \<le> 24) \<and> (\<forall>l\<in>set lu. length l \<le> 5)"
    for ld li lu
  proof -
    from h have rd: "read_csv fs (path_join data_dir ''u.data'') ratings_names [] =
        Inr (map (\<lambda>l. map (\<lambda>f. if f \<in> set STR_NA_VALUES then None else Some f) l
                       @ replicate (4 - length l) None) ld)"
      using read_csv_narrow [of fs "path_join data_dir ''u.data''" ld ratings_names "[]"]
      by (simp add: names_lengths)
    from h have ru: "read_csv fs (path_join data_dir ''u.user'') users_names [] =
        Inr (map (\<lambda>l. map (\<lambda>f. if f \<in> set STR_NA_VALUES then None else Some f) l
                       @ replicate (5 - length l) None) lu)"
      using read_csv_narrow [of fs "path_join data_dir ''u.user''" lu users_names "[]"]
      by (simp add: names_lengths)
    from h obtain raw where ri:
      "read_csv fs (path_join data_dir ''u.item'') items_names ['''', '' '', ''None''] = Inr raw"
      using read_csv_narrow [of fs "path_join data_dir ''u.item''" li items_names "['''', '' '', ''None'']"]
      by (simp add: names_lengths)
    have rl: "length r = 24" if "r \<in> set raw" for r
      using read_csv_row_length [OF ri that] by (simp add: names_lengths)
    let ?items = "map2 (\<lambda>row d. (map Raw row)[2 := Parsed d]) raw
         (to_datetime (map (\<lambda>row. str_replace_disallowed (str_strip (astype_str (row ! 2)))) raw))"
    have L: "load_raw_data to_datetime fs data_dir =
       Inr (map (\<lambda>l. map (\<lambda>f. if f \<in> set STR_NA_VALUES then None else Some f) l
                       @ replicate (4 - length l) None) ld, ?items,
            map (\<lambda>l. map (\<lambda>f. if f \<in> set STR_NA_VALUES then None else Some f) l
                       @ replicate (5 - length l) None) lu)"
      by (simp add: load_raw_data_def rd ru ri Let_def release_date_index comp_def)
    have "\<forall>r\<in>set ?items. length r = 24"
      by (auto simp: set_zip rl)
    with L show ?thesis by blast
  qed
  have 4: "isl (load_raw_data to_datetime fs data_dir) \<longrightarrow> snd (main to_datetime typed fs data_dir) = []"
    by (simp add: main_load_fails)
  from 1 2 3 4 show ?thesis by blast
qed


text \<open>
  With no file at all the load raises for \<^verbatim>\<open>data/u.data\<close> and nothing is written; the
  example with the four-column \<^verbatim>\<open>u.user\<close> loads.
\<close>

theorem load_raw_data_failure_witness:
  "load_raw_data ex_parser (\<lambda>p. None) ''data'' = Inl (FileNotFoundError ''data/u.data'')
   \<and> snd (main ex_parser (\<lambda>loaded. (ex_ratings, ex_items, ex_users)) (\<lambda>p. None) ''data'') = []
   \<and> \<not> isl (load_raw_data ex_parser ex_fs_short ''data'')"
proof -
  note A = load_raw_data_failure [of "\<lambda>p. None" "''data''" ex_parser
      "\<lambda>loaded. (ex_ratings, ex_items, ex_users)"]
  have a: "load_raw_data ex_parser (\<lambda>p. None) ''data'' = Inl (FileNotFoundError ''data/u.data'')"
    using A [THEN conjunct2, THEN conjunct1] by (simp add: path_join_def)
  have "isl (load_raw_data ex_parser (\<lambda>p. None) ''data'')"
    using A [THEN conjunct1] by simp
  then have b: "snd (main ex_parser (\<lambda>loaded. (ex_ratings, ex_items, ex_users)) (\<lambda>p. None) ''data'') = []"
    using A [THEN conjunct2, THEN conjunct2, THEN conjunct2] by simp
  have c: "\<not> isl (load_raw_data ex_parser ex_fs_short ''data'')"
    using load_raw_data_failure [of ex_fs_short "''data''" ex_parser
        "\<lambda>loaded. (ex_ratings, ex_items, ex_users)",
        THEN conjunct2, THEN conjunct2, THEN conjunct1, rule_format,
        of "[[''1'', ''1'', ''5'', ''874965758'']]"
           "[[''1'', ''Toy Story (1995)'', '' 01-Jan-1995?'', '''', ''http://x'',
                      ''0'', ''0'', ''0'', ''1'', ''1'', ''1'', ''0'', ''0'', ''0'', ''0'', ''0'', ''0'',
                      ''0'', ''0'', ''0'', ''0'', ''0'', ''0'', ''0''],
                     [''2'', ''GoldenEye (1995)'', ''tomorrow'', '''', ''http://y'',
                      ''0'', ''1'', ''1'', ''0'', ''0'', ''0'', ''0'', ''0'', ''0'', ''0'', ''0'', ''0'',
                      ''0'', ''0'', ''0'', ''0'', ''1'', ''0'', ''0'']]"
           "[[''1'', ''24'', ''M'', ''technician'']]"]
    by (auto simp: ex_fs_short_def ex_fs_def path_join_def)
  from a b c show ?thesis by (intro conjI)
qed

end
